theory Spec2Isabelle
  imports Complex_Main "HOL-Library.Sublist" "HOL-Library.AList"
begin

section \<open>Python values used by the agents\<close>

text \<open>
  The exceptions the modelled code can raise: the \<open>OSError\<close> subclasses of the file
  operations, \<open>ValueError\<close> of \<open>Path.relative_to\<close>, and \<open>KeyError\<close>/\<open>TypeError\<close> of
  reading an issue dictionary.
\<close>

datatype exn =
  FileNotFoundError | FileExistsError | NotADirectoryError | IsADirectoryError
  | PermissionError | ValueError | KeyError | TypeError

subsection \<open>Strings\<close>

text \<open>\<open>needle in hay\<close>.\<close>

fun contains :: "string \<Rightarrow> string \<Rightarrow> bool" where
  "contains needle [] = (needle = [])"
| "contains needle (c # cs) = (prefix needle (c # cs) \<or> contains needle cs)"

text \<open>\<open>s.endswith(e)\<close>.\<close>

definition endswith :: "string \<Rightarrow> string \<Rightarrow> bool" where
  "endswith s e = prefix (rev e) (rev s)"

text \<open>
  \<open>s.replace(old, new)\<close>: left to right, non-overlapping. Every call in the source has a
  non-empty literal for \<open>old\<close>; for the empty \<open>old\<close> (where Python inserts \<open>new\<close> around
  every character) the model returns \<open>s\<close>.
\<close>

fun replace :: "string \<Rightarrow> string \<Rightarrow> string \<Rightarrow> string" where
  "replace old new [] = []"
| "replace old new (c # cs) =
     (if old \<noteq> [] \<and> prefix old (c # cs)
      then new @ replace old new (drop (length old - 1) cs)
      else c # replace old new cs)"

text \<open>\<open>s.count(sub)\<close> for a non-empty \<open>sub\<close>: non-overlapping occurrences.\<close>

fun count_str :: "string \<Rightarrow> string \<Rightarrow> nat" where
  "count_str sub [] = 0"
| "count_str sub (c # cs) =
     (if sub \<noteq> [] \<and> prefix sub (c # cs)
      then Suc (count_str sub (drop (length sub - 1) cs))
      else count_str sub cs)"

text \<open>\<open>s.split(sep)\<close> for a one-character separator.\<close>

fun split_on :: "char \<Rightarrow> string \<Rightarrow> string list" where
  "split_on sep [] = [[]]"
| "split_on sep (c # cs) =
     (if c = sep then [] # split_on sep cs
      else (case split_on sep cs of [] \<Rightarrow> [[c]] | l # ls \<Rightarrow> (c # l) # ls))"

text \<open>
  \<open>s.strip()\<close> removes the characters for which \<open>str.isspace\<close> holds; below 128 these are
  the space, the controls 9 to 13 and the separators 28 to 31. Strings are byte strings here, so
  the whitespace beyond ASCII is not stripped.
\<close>

definition is_space :: "char \<Rightarrow> bool" where
  "is_space c =
     (c \<in> set [CHR '' '', CHR 0x09, CHR 0x0A, CHR 0x0B, CHR 0x0C, CHR 0x0D,
                CHR 0x1C, CHR 0x1D, CHR 0x1E, CHR 0x1F])"

definition strip :: "string \<Rightarrow> string" where
  "strip s = rev (dropWhile is_space (rev (dropWhile is_space s)))"

subsection \<open>Paths\<close>

text \<open>
  A \<open>pathlib.Path\<close> is modelled as the list of its components below the filesystem root, so
  \<open>[]\<close> is \<open>/\<close>. \<open>str_of\<close> is \<open>str(p)\<close> and \<open>Path\<close> is the constructor applied to a string
  (empty and \<open>.\<close> components are dropped, as pathlib does); a relative string is read from
  the root, that is the working directory is taken to be \<open>/\<close>.
\<close>

type_synonym path = "string list"

definition str_of :: "path \<Rightarrow> string" where
  "str_of p = (if p = [] then ''/'' else concat (map (\<lambda>c. CHR ''/'' # c) p))"

definition Path :: "string \<Rightarrow> path" where
  "Path s = filter (\<lambda>c. c \<noteq> [] \<and> c \<noteq> ''.'') (split_on CHR ''/'' s)"

definition parent :: "path \<Rightarrow> path" where
  "parent p = butlast p"

definition name_of :: "path \<Rightarrow> string" where
  "name_of p = (if p = [] then [] else last p)"

text \<open>
  \<open>Path.stem\<close>: the name up to its last dot, when that dot is neither the first nor the
  last character of the name.
\<close>

definition rfind_dot :: "string \<Rightarrow> nat option" where
  "rfind_dot s =
     (if CHR ''.'' \<in> set s then Some (length s - 1 - length (takeWhile (\<lambda>c. c \<noteq> CHR ''.'') (rev s)))
      else None)"

definition stem :: "path \<Rightarrow> string" where
  "stem p =
     (let n = name_of p in
      case rfind_dot n of
        None \<Rightarrow> n
      | Some i \<Rightarrow> if 0 < i \<and> i < length n - 1 then take i n else n)"

text \<open>\<open>p.relative_to(base)\<close> raises \<open>ValueError\<close> unless \<open>p\<close> lies at or below \<open>base\<close>.\<close>

definition relative_to :: "path \<Rightarrow> path \<Rightarrow> exn + path" where
  "relative_to p base = (if prefix base p then Inr (drop (length base) p) else Inl ValueError)"

text \<open>
  The glob patterns of the source all have the shape \<open>*MID*EXT\<close> or \<open>*EXT\<close> (for example
  \<open>*Network*.kt\<close>, \<open>*.kt\<close>): the name ends with \<open>EXT\<close> and \<open>MID\<close> occurs before it.
\<close>

definition glob_match :: "string \<Rightarrow> string \<Rightarrow> string \<Rightarrow> bool" where
  "glob_match mid ext n =
     (endswith n ext \<and> contains mid (take (length n - length ext) n))"

section \<open>The project tree\<close>

text \<open>
  The directory tree is an association list from paths to nodes, in listing order. A file
  carries its text and whether it may be written (a read-only file makes \<open>write_text\<close> raise
  \<open>PermissionError\<close>). Symbolic links, unreadable files and directory permissions are not
  modelled.
\<close>

datatype node = Dir | File bool string

type_synonym tree = "(path \<times> node) list"

definition exists :: "tree \<Rightarrow> path \<Rightarrow> bool" where
  "exists t p = (map_of t p \<noteq> None)"

definition is_dir :: "tree \<Rightarrow> path \<Rightarrow> bool" where
  "is_dir t p = (map_of t p = Some Dir)"

definition is_file :: "tree \<Rightarrow> path \<Rightarrow> bool" where
  "is_file t p = (case map_of t p of Some (File w s) \<Rightarrow> True | _ \<Rightarrow> False)"

text \<open>Some proper ancestor of the path is a regular file: resolution fails with \<open>ENOTDIR\<close>.\<close>

definition blocked :: "tree \<Rightarrow> path \<Rightarrow> bool" where
  "blocked t p = list_ex (is_file t) (butlast (prefixes p))"

definition read_text :: "tree \<Rightarrow> path \<Rightarrow> exn + string" where
  "read_text t p =
     (case map_of t p of
        Some (File w s) \<Rightarrow> Inr s
      | Some Dir \<Rightarrow> Inl IsADirectoryError
      | None \<Rightarrow> if blocked t p then Inl NotADirectoryError else Inl FileNotFoundError)"

definition write_text :: "path \<Rightarrow> string \<Rightarrow> tree \<Rightarrow> exn + tree" where
  "write_text p s t =
     (case map_of t p of
        Some (File w old) \<Rightarrow> if w then Inr (AList.update p (File w s) t) else Inl PermissionError
      | Some Dir \<Rightarrow> Inl IsADirectoryError
      | None \<Rightarrow>
          if blocked t p then Inl NotADirectoryError
          else if \<not> is_dir t (parent p) then Inl FileNotFoundError
          else Inr (AList.update p (File True s) t))"

definition os_mkdir :: "path \<Rightarrow> tree \<Rightarrow> exn + tree" where
  "os_mkdir p t =
     (if exists t p then Inl FileExistsError
      else if blocked t p then Inl NotADirectoryError
      else if \<not> is_dir t (parent p) then Inl FileNotFoundError
      else Inr (AList.update p Dir t))"

text \<open>
  \<open>Path.mkdir(parents=..., exist_ok=True)\<close>, following pathlib: try \<open>os.mkdir\<close>; on
  \<open>FileNotFoundError\<close> create the parents first (when asked to) and retry without
  \<open>parents\<close>; any other \<open>OSError\<close> is swallowed exactly when the path is a directory.
\<close>

function mkdir :: "bool \<Rightarrow> path \<Rightarrow> tree \<Rightarrow> exn + tree" where
  "mkdir parents p t =
     (case os_mkdir p t of
        Inr t' \<Rightarrow> Inr t'
      | Inl e \<Rightarrow>
          if e = FileNotFoundError then
            (if \<not> parents \<or> p = [] then Inl e
             else (case mkdir True (butlast p) t of
                     Inl e' \<Rightarrow> Inl e'
                   | Inr t' \<Rightarrow> mkdir False p t'))
          else if is_dir t p then Inr t else Inl e)"
  by pat_completeness auto
termination
  by (relation "measure (\<lambda>(b, p, t). 2 * length p + (if b then 1 else 0))") auto

declare mkdir.simps [simp del]

text \<open>
  \<open>Path.rglob\<close>: every entry strictly below the directory whose name matches, in listing
  order (the order of \<open>os.scandir\<close> is the filesystem's).
\<close>

definition rglob :: "string \<Rightarrow> string \<Rightarrow> path \<Rightarrow> tree \<Rightarrow> path list" where
  "rglob mid ext base t =
     (if is_dir t base
      then filter (\<lambda>p. strict_prefix base p \<and> glob_match mid ext (name_of p)) (map fst t)
      else [])"

text \<open>
  \<open>shutil.copytree(src, dst)\<close>: the destination must not exist; every entry at or below
  \<open>src\<close> is copied, with its mode, to the same place below \<open>dst\<close>.
\<close>

definition copytree :: "path \<Rightarrow> path \<Rightarrow> tree \<Rightarrow> exn + tree" where
  "copytree src dst t =
     (if \<not> exists t src then Inl FileNotFoundError
      else if \<not> is_dir t src then Inl NotADirectoryError
      else if exists t dst then Inl FileExistsError
      else if blocked t dst then Inl NotADirectoryError
      else Inr (t @ map (\<lambda>(p, n). (dst @ drop (length src) p, n))
                      (filter (\<lambda>(p, n). prefix src p) t)))"


section \<open>Agents\<close>

subsection \<open>Issues, modifications and the state of a run\<close>

text \<open>
  An issue is the dictionary the analysis builds; its values are strings (paths are stored
  as \<open>str(path)\<close>), counts or lists of strings.
\<close>

datatype val = Str string | Num nat | Lst "string list"

type_synonym issue = "(string \<times> val) list"

text \<open>\<open>issue[key]\<close>.\<close>

definition item :: "issue \<Rightarrow> string \<Rightarrow> exn + val" where
  "item issue key = (case map_of issue key of None \<Rightarrow> Inl KeyError | Some v \<Rightarrow> Inr v)"

text \<open>\<open>Path(issue[key])\<close>, and \<open>issue[key]\<close> where the code goes on to use it as a string.\<close>

definition item_str :: "issue \<Rightarrow> string \<Rightarrow> exn + string" where
  "item_str issue key =
     (case item issue key of Inl e \<Rightarrow> Inl e | Inr (Str s) \<Rightarrow> Inr s | Inr _ \<Rightarrow> Inl TypeError)"

text \<open>
  The entry \<open>add_modification\<close> appends (\<open>mod_file\<close> is its key \<open>file\<close>); the
  \<open>timestamp\<close> field (wall-clock time) is left
  out.
\<close>

record modification =
  mod_file :: string
  description :: string

datatype agent =
  TestCoverageAgent | ArchitectureAgent | SecurityAgent | PerformanceAgent | DocumentationAgent

datatype phase = Analyze | Fix | Validate

text \<open>
  The trace lists, in program order, what the orchestrator and the agents do: entering and
  leaving an agent's method, each \<open>add_modification\<close>, and the counts the orchestrator
  reads from the dictionary \<open>fix\<close> returns.
\<close>

datatype event =
  Enter phase agent | Exit phase agent | Modified agent string | Fixed agent nat nat

text \<open>
  The state: the directory tree, the two lists every agent object keeps, and the trace.
  Console output is not modelled.
\<close>

record world =
  fs :: tree
  issues_found :: "agent \<Rightarrow> issue list"
  modifications_made :: "agent \<Rightarrow> modification list"
  trace :: "event list"

subsection \<open>Computations that change the state and may raise\<close>

type_synonym 'a m = "world \<Rightarrow> (exn + 'a) \<times> world"

definition ok :: "'a \<Rightarrow> 'a m" where
  "ok x w = (Inr x, w)"

definition raise :: "exn \<Rightarrow> 'a m" where
  "raise e w = (Inl e, w)"

definition lift :: "exn + 'a \<Rightarrow> 'a m" where
  "lift r w = (r, w)"

definition andthen :: "'a m \<Rightarrow> ('a \<Rightarrow> 'b m) \<Rightarrow> 'b m" where
  "andthen c f w = (case c w of (Inl e, w') \<Rightarrow> (Inl e, w') | (Inr x, w') \<Rightarrow> f x w')"

text \<open>\<open>try: c  except: h\<close> with a bare \<open>except\<close>.\<close>

definition attempt :: "'a m \<Rightarrow> 'a m \<Rightarrow> 'a m" where
  "attempt c h w = (case c w of (Inl e, w') \<Rightarrow> h w' | (Inr x, w') \<Rightarrow> (Inr x, w'))"

definition fs_read :: "(tree \<Rightarrow> exn + 'a) \<Rightarrow> 'a m" where
  "fs_read f w = (f (fs w), w)"

definition fs_write :: "(tree \<Rightarrow> exn + tree) \<Rightarrow> unit m" where
  "fs_write f w = (case f (fs w) of Inl e \<Rightarrow> (Inl e, w) | Inr t' \<Rightarrow> (Inr (), w\<lparr>fs := t'\<rparr>))"

definition emit :: "event \<Rightarrow> unit m" where
  "emit ev w = (Inr (), w\<lparr>trace := trace w @ [ev]\<rparr>)"

text \<open>\<open>AgentBase.add_modification\<close>.\<close>

definition add_modification :: "agent \<Rightarrow> string \<Rightarrow> string \<Rightarrow> unit m" where
  "add_modification self file_path descr w =
     (Inr (),
      w\<lparr>modifications_made :=
          (modifications_made w)
            (self := modifications_made w self @ [\<lparr>mod_file = file_path, description = descr\<rparr>]),
        trace := trace w @ [Modified self file_path]\<rparr>)"

text \<open>
  The pattern of every generator method: make the parent directories, write the text,
  record the modification.
\<close>

definition generate :: "agent \<Rightarrow> path \<Rightarrow> string \<Rightarrow> string \<Rightarrow> unit m" where
  "generate self p text descr =
     andthen (fs_write (mkdir True (parent p))) (\<lambda>_.
     andthen (fs_write (write_text p text)) (\<lambda>_.
     add_modification self (str_of p) descr))"

text \<open>A \<open>for\<close> loop whose body returns nothing.\<close>

fun for_each :: "('a \<Rightarrow> unit m) \<Rightarrow> 'a list \<Rightarrow> unit m" where
  "for_each body [] = ok ()"
| "for_each body (x # xs) = andthen (body x) (\<lambda>_. for_each body xs)"

text \<open>The loop of every \<open>fix\<close>: the issues in order, threading \<open>fixed_count\<close>.\<close>

fun fix_loop :: "(issue \<Rightarrow> nat \<Rightarrow> nat m) \<Rightarrow> issue list \<Rightarrow> nat \<Rightarrow> nat m" where
  "fix_loop body [] fixed_count = ok fixed_count"
| "fix_loop body (issue # issues) fixed_count =
     andthen (body issue fixed_count) (fix_loop body issues)"

subsection \<open>TestCoverageAgent\<close>

text \<open>
  The Kotlin, Markdown and ProGuard texts the agents write are long literals. Each is carried
  here by a constant that keeps its first line and the words the agents later search for;
  \<open>nl\<close> is the newline.
\<close>

definition nl :: string where
  "nl = [CHR 0x0A]"

definition integration_test :: string where
  "integration_test = ''package com.astralplayer.integration''"

definition ui_test :: string where
  "ui_test = ''package com.astralplayer.ui''"

definition perf_test :: string where
  "perf_test = ''package com.astralplayer.benchmark''"

definition get_test_file_path :: "path \<Rightarrow> path \<Rightarrow> exn + path" where
  "get_test_file_path pp source_file =
     (case relative_to source_file pp of
        Inl e \<Rightarrow> Inl e
      | Inr relative_path \<Rightarrow>
          Inr (pp @ Path ''app/src/test'' @ parent relative_path @ [stem source_file @ ''Test.kt'']))"

definition is_source :: "path \<Rightarrow> bool" where
  "is_source f = (\<not> contains ''/test/'' (str_of f) \<and> \<not> contains ''/androidTest/'' (str_of f))"

definition estimate_coverage :: "path \<Rightarrow> tree \<Rightarrow> rat" where
  "estimate_coverage pp t =
     (let kotlin_files = rglob [] ''.kt'' pp t;
          source_files = filter is_source kotlin_files;
          test_files = filter (\<lambda>f. \<not> is_source f) kotlin_files
      in if source_files = [] then 0
         else min (of_nat (length test_files) / of_nat (length source_files) * 100) 100)"

text \<open>The second loop of \<open>analyze\<close>: one issue for every source file without its test file.\<close>

fun missing_test_files :: "path \<Rightarrow> tree \<Rightarrow> path list \<Rightarrow> exn + issue list" where
  "missing_test_files pp t [] = Inr []"
| "missing_test_files pp t (source_file # rest) =
     (case get_test_file_path pp source_file of
        Inl e \<Rightarrow> Inl e
      | Inr test_file \<Rightarrow>
          (case missing_test_files pp t rest of
             Inl e \<Rightarrow> Inl e
           | Inr issues \<Rightarrow>
               Inr ((if \<not> exists t test_file
                     then [[(''type'', Str ''missing_test_file''),
                            (''source'', Str (str_of source_file)),
                            (''test_path'', Str (str_of test_file)),
                            (''severity'', Str ''medium'')]]
                     else []) @ issues)))"

definition TestCoverageAgent_analyze :: "path \<Rightarrow> issue list m" where
  "TestCoverageAgent_analyze pp w =
     (let t = fs w;
          test_dirs = [pp @ Path ''app/src/test'', pp @ Path ''app/src/androidTest''];
          dir_issues =
            map (\<lambda>test_dir. [(''type'', Str ''missing_test_directory''),
                              (''path'', Str (str_of test_dir)),
                              (''severity'', Str ''high'')])
                (filter (\<lambda>test_dir. \<not> exists t test_dir) test_dirs);
          source_files = filter is_source (rglob [] ''.kt'' pp t)
      in case missing_test_files pp t source_files of
           Inl e \<Rightarrow> (Inl e, w)
         | Inr file_issues \<Rightarrow>
             (Inr (dir_issues @ file_issues),
              w\<lparr>issues_found := (issues_found w)(TestCoverageAgent := dir_issues @ file_issues)\<rparr>))"

text \<open>
  \<open>_extract_package\<close>: the first line that, stripped, starts with \<open>package\<close>; when the file
  cannot be read or has no such line, the path below \<open>app/src/main/java\<close>, which raises
  \<open>ValueError\<close> for a file that is not there.
\<close>

definition rel_str :: "path \<Rightarrow> string" where
  "rel_str p = (if p = [] then ''.'' else tl (concat (map (\<lambda>c. CHR ''/'' # c) p)))"

definition package_lines :: "string \<Rightarrow> string list" where
  "package_lines content =
     filter (\<lambda>line. prefix ''package '' (strip line)) (split_on CHR 0x0A content)"

definition extract_package :: "path \<Rightarrow> tree \<Rightarrow> path \<Rightarrow> exn + string" where
  "extract_package pp t source_file =
     (case (case read_text t source_file of
              Inl e \<Rightarrow> None
            | Inr content \<Rightarrow>
                (case package_lines content of
                   [] \<Rightarrow> None
                 | line # _ \<Rightarrow> Some (replace '';'' [] (replace ''package '' [] (strip line))))) of
        Some pkg \<Rightarrow> Inr pkg
      | None \<Rightarrow>
          (case relative_to source_file (pp @ Path ''app/src/main/java'') of
             Inl e \<Rightarrow> Inl e
           | Inr relative_path \<Rightarrow> Inr (replace ''/'' ''.'' (rel_str (parent relative_path)))))"

definition generate_test_content :: "path \<Rightarrow> tree \<Rightarrow> string \<Rightarrow> exn + string" where
  "generate_test_content pp t source_path =
     (let source_file = Path source_path; class_name = stem source_file in
      case extract_package pp t source_file of
        Inl e \<Rightarrow> Inl e
      | Inr package_path \<Rightarrow>
          Inr (''package '' @ package_path @ ''.test'' @ nl @
               ''import '' @ package_path @ ''.'' @ class_name @ nl @
               ''class '' @ class_name @ ''Test''))"

definition generate_integration_tests :: "path \<Rightarrow> unit m" where
  "generate_integration_tests pp =
     generate TestCoverageAgent
       (pp @ Path ''app/src/androidTest/java/com/astralplayer/integration/VideoPlayerIntegrationTest.kt'')
       integration_test ''Generated integration tests''"

definition generate_ui_tests :: "path \<Rightarrow> unit m" where
  "generate_ui_tests pp =
     generate TestCoverageAgent
       (pp @ Path ''app/src/androidTest/java/com/astralplayer/ui/VideoPlayerUITest.kt'')
       ui_test ''Generated UI tests''"

definition generate_performance_tests :: "path \<Rightarrow> unit m" where
  "generate_performance_tests pp =
     generate TestCoverageAgent
       (pp @ Path ''benchmark/src/androidTest/java/com/astralplayer/benchmark/VideoPlayerBenchmark.kt'')
       perf_test ''Generated performance benchmarks''"

text \<open>One turn of the loop of \<open>fix\<close>; the result is the new \<open>fixed_count\<close>.\<close>

definition TestCoverageAgent_fix_issue :: "path \<Rightarrow> issue \<Rightarrow> nat \<Rightarrow> nat m" where
  "TestCoverageAgent_fix_issue pp issue fixed_count =
     andthen (lift (item issue ''type'')) (\<lambda>ty.
       if ty = Str ''missing_test_directory'' then
         andthen (lift (item_str issue ''path'')) (\<lambda>path.
         andthen (fs_write (mkdir True (Path path))) (\<lambda>_.
         andthen (add_modification TestCoverageAgent path ''Created test directory'') (\<lambda>_.
         ok (fixed_count + 1))))
       else if ty = Str ''missing_test_file'' then
         andthen (lift (item_str issue ''source'')) (\<lambda>source.
         andthen (fs_read (\<lambda>t. generate_test_content pp t source)) (\<lambda>test_content.
         andthen (lift (item_str issue ''test_path'')) (\<lambda>test_path.
         andthen (fs_write (mkdir True (parent (Path test_path)))) (\<lambda>_.
         andthen (fs_write (write_text (Path test_path) test_content)) (\<lambda>_.
         andthen (add_modification TestCoverageAgent (str_of (Path test_path))
                    ''Generated comprehensive test file'') (\<lambda>_.
         ok (fixed_count + 1)))))))
       else ok fixed_count)"

text \<open>\<open>fix\<close> returns the pair \<open>(fixed, total)\<close> of its result dictionary.\<close>

definition TestCoverageAgent_fix :: "path \<Rightarrow> issue list \<Rightarrow> (nat \<times> nat) m" where
  "TestCoverageAgent_fix pp issues =
     andthen (fix_loop (TestCoverageAgent_fix_issue pp) issues 0) (\<lambda>fixed_count.
     andthen (generate_integration_tests pp) (\<lambda>_.
     andthen (generate_ui_tests pp) (\<lambda>_.
     andthen (generate_performance_tests pp) (\<lambda>_.
     ok (fixed_count, length issues)))))"

text \<open>
  \<open>validate\<close> compares the estimate, a float in the source, with 85; the model computes
  the same quotient exactly.
\<close>

definition TestCoverageAgent_validate :: "path \<Rightarrow> bool m" where
  "TestCoverageAgent_validate pp w = (Inr (estimate_coverage pp (fs w) \<ge> 85), w)"

subsection \<open>ArchitectureAgent\<close>

definition unified_db :: string where
  "unified_db = ''package com.astralplayer.data.database''"

definition nav_enhancement :: string where
  "nav_enhancement = ''package com.astralplayer.presentation.navigation''"

text \<open>The dictionaries \<open>interfaces\<close> and \<open>use_cases\<close>, in insertion order.\<close>

definition interfaces :: "(string \<times> string) list" where
  "interfaces =
     [(''VideoPlayerRepository'', ''package com.astralplayer.domain.repository''),
      (''SubtitleRepository'', ''package com.astralplayer.domain.repository''),
      (''CloudStorageRepository'', ''package com.astralplayer.domain.repository'')]"

definition use_cases :: "(string \<times> string) list" where
  "use_cases =
     [(''PlayVideoUseCase'', ''package com.astralplayer.domain.usecase''),
      (''GenerateSubtitlesUseCase'', ''package com.astralplayer.domain.usecase'')]"

definition databases :: "string list" where
  "databases = [''AstralStreamDatabase'', ''AstralVuDatabase'', ''NextPlayerDatabase'']"

text \<open>
  The first component of every package named by a \<open>package\<close> line of a file; a file that
  cannot be read contributes nothing. The source collects them in a set, whose listing order
  is not fixed; \<open>analyze\<close> below lists them in the order of first occurrence.
\<close>

definition package_roots :: "tree \<Rightarrow> path \<Rightarrow> string list" where
  "package_roots t kt_file =
     (case read_text t kt_file of
        Inl e \<Rightarrow> []
      | Inr content \<Rightarrow>
          map (\<lambda>line.
                 let pkg = replace '';'' [] (replace ''package '' [] (strip line)) in
                 if CHR ''.'' \<in> set pkg then hd (split_on CHR ''.'' pkg) else pkg)
              (package_lines content))"

definition ArchitectureAgent_analyze :: "path \<Rightarrow> issue list m" where
  "ArchitectureAgent_analyze pp w =
     (let t = fs w;
          db_count = length (filter (\<lambda>db. rglob db ''.kt'' pp t \<noteq> []) databases);
          packages = remdups (concat (map (package_roots t) (rglob [] ''.kt'' pp t)));
          nav_files = rglob ''Navigation'' ''.kt'' pp t;
          issues =
            (if db_count > 1
             then [[(''type'', Str ''multiple_databases''), (''count'', Num db_count),
                    (''severity'', Str ''high'')]]
             else []) @
            (if length packages > 2
             then [[(''type'', Str ''inconsistent_packages''), (''packages'', Lst packages),
                    (''severity'', Str ''medium'')]]
             else []) @
            (if length nav_files < 2
             then [[(''type'', Str ''incomplete_navigation''), (''severity'', Str ''medium'')]]
             else [])
      in (Inr issues, w\<lparr>issues_found := (issues_found w)(ArchitectureAgent := issues)\<rparr>))"

definition consolidate_databases :: "path \<Rightarrow> unit m" where
  "consolidate_databases pp =
     generate ArchitectureAgent
       (pp @ Path ''app/src/main/java/com/astralplayer/data/database/AstralStreamDatabase.kt'')
       unified_db ''Created unified database''"

text \<open>
  \<open>_standardize_packages\<close>: for every Kotlin file, inside one \<open>try\<close> with a bare \<open>except\<close>,
  apply the two replacements in order and write the file back when either applied.
\<close>

definition standardize_text :: "string \<Rightarrow> string \<times> bool" where
  "standardize_text content =
     (let (c1, m1) =
            (if contains ''com.astralplayer.nextplayer'' content
             then (replace ''com.astralplayer.nextplayer'' ''com.astralplayer.core'' content, True)
             else (content, False))
      in if contains ''com.astralplayer.astralstream'' c1
         then (replace ''com.astralplayer.astralstream'' ''com.astralplayer'' c1, True)
         else (c1, m1))"

definition standardize_file :: "path \<Rightarrow> unit m" where
  "standardize_file kt_file =
     attempt
       (andthen (fs_read (\<lambda>t. read_text t kt_file)) (\<lambda>content.
          let (content', modified) = standardize_text content in
          if modified then
            andthen (fs_write (write_text kt_file content')) (\<lambda>_.
            add_modification ArchitectureAgent (str_of kt_file) ''Standardized package names'')
          else ok ()))
       (ok ())"

text \<open>The files are listed once, when the loop starts.\<close>

definition standardize_packages :: "path \<Rightarrow> unit m" where
  "standardize_packages pp w = for_each standardize_file (rglob [] ''.kt'' pp (fs w)) w"

definition enhance_navigation :: "path \<Rightarrow> unit m" where
  "enhance_navigation pp =
     generate ArchitectureAgent
       (pp @ Path ''app/src/main/java/com/astralplayer/presentation/navigation/AstralStreamNavigation.kt'')
       nav_enhancement ''Enhanced navigation with deep linking''"

definition create_domain_interfaces :: "path \<Rightarrow> unit m" where
  "create_domain_interfaces pp =
     for_each
       (\<lambda>(interface_name, content).
          generate ArchitectureAgent
            (pp @ Path (''app/src/main/java/com/astralplayer/domain/repository/'' @ interface_name @ ''.kt''))
            content (''Created '' @ interface_name @ '' interface''))
       interfaces"

definition implement_use_cases :: "path \<Rightarrow> unit m" where
  "implement_use_cases pp =
     for_each
       (\<lambda>(use_case_name, content).
          generate ArchitectureAgent
            (pp @ Path (''app/src/main/java/com/astralplayer/domain/usecase/'' @ use_case_name @ ''.kt''))
            content (''Created '' @ use_case_name))
       use_cases"

definition ArchitectureAgent_fix_issue :: "path \<Rightarrow> issue \<Rightarrow> nat \<Rightarrow> nat m" where
  "ArchitectureAgent_fix_issue pp issue fixed_count =
     andthen (lift (item issue ''type'')) (\<lambda>ty.
       if ty = Str ''multiple_databases'' then
         andthen (consolidate_databases pp) (\<lambda>_. ok (fixed_count + 1))
       else if ty = Str ''inconsistent_packages'' then
         andthen (standardize_packages pp) (\<lambda>_. ok (fixed_count + 1))
       else if ty = Str ''incomplete_navigation'' then
         andthen (enhance_navigation pp) (\<lambda>_. ok (fixed_count + 1))
       else ok fixed_count)"

definition ArchitectureAgent_fix :: "path \<Rightarrow> issue list \<Rightarrow> (nat \<times> nat) m" where
  "ArchitectureAgent_fix pp issues =
     andthen (fix_loop (ArchitectureAgent_fix_issue pp) issues 0) (\<lambda>fixed_count.
     andthen (create_domain_interfaces pp) (\<lambda>_.
     andthen (implement_use_cases pp) (\<lambda>_.
     ok (fixed_count, length issues))))"

definition ArchitectureAgent_validate :: "path \<Rightarrow> bool m" where
  "ArchitectureAgent_validate pp w =
     (let has_domain = exists (fs w) (pp @ Path ''app/src/main/java/com/astralplayer/domain'');
          has_data = exists (fs w) (pp @ Path ''app/src/main/java/com/astralplayer/data'');
          has_presentation = exists (fs w) (pp @ Path ''app/src/main/java/com/astralplayer/presentation'')
      in (Inr (has_domain \<and> has_data \<and> has_presentation), w))"

subsection \<open>SecurityAgent\<close>

definition cert_pinning :: string where
  "cert_pinning =
     ''package com.astralplayer.network.security'' @ nl @ ''import okhttp3.CertificatePinner''"

definition proguard_rules :: string where
  "proguard_rules =
     ''# AstralStream ProGuard Rules'' @ nl @ nl @
     ''# Keep line numbers for debugging production issues'' @ nl @
     ''-keepattributes SourceFile,LineNumberTable'' @ nl @
     ''-renamesourcefileattribute SourceFile''"

definition biometric_auth :: string where
  "biometric_auth = ''package com.astralplayer.security''"

definition encryption :: string where
  "encryption =
     ''package com.astralplayer.security'' @ nl @
     ''import androidx.security.crypto.EncryptedSharedPreferences'' @ nl @
     ''import javax.crypto.Cipher''"

text \<open>Some file among the listed ones can be read and its text satisfies the test.\<close>

definition some_file_has :: "tree \<Rightarrow> (string \<Rightarrow> bool) \<Rightarrow> path list \<Rightarrow> bool" where
  "some_file_has t test files =
     list_ex (\<lambda>kt_file. case read_text t kt_file of Inl e \<Rightarrow> False | Inr content \<Rightarrow> test content)
       files"

definition has_certificate_pinning :: "path \<Rightarrow> tree \<Rightarrow> bool" where
  "has_certificate_pinning pp t =
     some_file_has t (contains ''CertificatePinner'') (rglob ''Network'' ''.kt'' pp t)"

definition has_encryption :: "path \<Rightarrow> tree \<Rightarrow> bool" where
  "has_encryption pp t =
     some_file_has t
       (\<lambda>content. contains ''EncryptedSharedPreferences'' content \<or> contains ''Cipher'' content)
       (rglob ''Security'' ''.kt'' pp t)"

text \<open>
  \<open>analyze\<close> reads \<open>app/proguard-rules.pro\<close> outside any \<open>try\<close>, so a directory of that name
  makes it raise. The length is counted in bytes here, in code points in Python.
\<close>

definition SecurityAgent_analyze :: "path \<Rightarrow> issue list m" where
  "SecurityAgent_analyze pp w =
     (let t = fs w;
          proguard_file = pp @ Path ''app/proguard-rules.pro'';
          pinning_issues =
            (if \<not> has_certificate_pinning pp t
             then [[(''type'', Str ''missing_certificate_pinning''), (''severity'', Str ''high'')]]
             else []);
          http_issues =
            map (\<lambda>kt_file. [(''type'', Str ''insecure_http''), (''file'', Str (str_of kt_file)),
                             (''severity'', Str ''high'')])
                (filter (\<lambda>kt_file.
                           case read_text t kt_file of
                             Inl e \<Rightarrow> False
                           | Inr content \<Rightarrow>
                               contains ''http://'' content \<and> \<not> contains ''localhost'' content)
                        (rglob [] ''.kt'' pp t))
      in case (if \<not> exists t proguard_file then Inr True
               else (case read_text t proguard_file of
                       Inl e \<Rightarrow> Inl e
                     | Inr content \<Rightarrow> Inr (length content < 100))) of
           Inl e \<Rightarrow> (Inl e, w)
         | Inr insufficient \<Rightarrow>
             (let issues =
                    pinning_issues @
                    (if insufficient
                     then [[(''type'', Str ''insufficient_obfuscation''),
                            (''severity'', Str ''medium'')]]
                     else []) @
                    http_issues
              in (Inr issues, w\<lparr>issues_found := (issues_found w)(SecurityAgent := issues)\<rparr>)))"

definition implement_certificate_pinning :: "path \<Rightarrow> unit m" where
  "implement_certificate_pinning pp =
     generate SecurityAgent
       (pp @ Path ''app/src/main/java/com/astralplayer/network/security/SecureNetworkClient.kt'')
       cert_pinning ''Implemented certificate pinning''"

text \<open>\<open>_enhance_obfuscation\<close> writes without creating the parent directory.\<close>

definition enhance_obfuscation :: "path \<Rightarrow> unit m" where
  "enhance_obfuscation pp =
     (let proguard_path = pp @ Path ''app/proguard-rules.pro'' in
      andthen (fs_write (write_text proguard_path proguard_rules)) (\<lambda>_.
      add_modification SecurityAgent (str_of proguard_path) ''Enhanced ProGuard obfuscation rules''))"

definition fix_insecure_endpoints :: "string \<Rightarrow> unit m" where
  "fix_insecure_endpoints file_path =
     attempt
       (andthen (fs_read (\<lambda>t. read_text t (Path file_path))) (\<lambda>content.
        andthen (fs_write (write_text (Path file_path) (replace ''http://'' ''https://'' content))) (\<lambda>_.
        add_modification SecurityAgent file_path ''Fixed insecure HTTP endpoints'')))
       (ok ())"

definition implement_biometric_auth :: "path \<Rightarrow> unit m" where
  "implement_biometric_auth pp =
     generate SecurityAgent
       (pp @ Path ''app/src/main/java/com/astralplayer/security/BiometricAuthManager.kt'')
       biometric_auth ''Implemented biometric authentication''"

definition enhance_data_encryption :: "path \<Rightarrow> unit m" where
  "enhance_data_encryption pp =
     generate SecurityAgent
       (pp @ Path ''app/src/main/java/com/astralplayer/security/AdvancedEncryptionManager.kt'')
       encryption ''Enhanced data encryption''"

definition SecurityAgent_fix_issue :: "path \<Rightarrow> issue \<Rightarrow> nat \<Rightarrow> nat m" where
  "SecurityAgent_fix_issue pp issue fixed_count =
     andthen (lift (item issue ''type'')) (\<lambda>ty.
       if ty = Str ''missing_certificate_pinning'' then
         andthen (implement_certificate_pinning pp) (\<lambda>_. ok (fixed_count + 1))
       else if ty = Str ''insufficient_obfuscation'' then
         andthen (enhance_obfuscation pp) (\<lambda>_. ok (fixed_count + 1))
       else if ty = Str ''insecure_http'' then
         andthen (lift (item_str issue ''file'')) (\<lambda>file_path.
         andthen (fix_insecure_endpoints file_path) (\<lambda>_. ok (fixed_count + 1)))
       else ok fixed_count)"

definition SecurityAgent_fix :: "path \<Rightarrow> issue list \<Rightarrow> (nat \<times> nat) m" where
  "SecurityAgent_fix pp issues =
     andthen (fix_loop (SecurityAgent_fix_issue pp) issues 0) (\<lambda>fixed_count.
     andthen (implement_biometric_auth pp) (\<lambda>_.
     andthen (enhance_data_encryption pp) (\<lambda>_.
     ok (fixed_count, length issues))))"

definition SecurityAgent_validate :: "path \<Rightarrow> bool m" where
  "SecurityAgent_validate pp w =
     (let has_pinning = has_certificate_pinning pp (fs w);
          has_obfuscation = exists (fs w) (pp @ Path ''app/proguard-rules.pro'');
          has_encryption = has_encryption pp (fs w)
      in (Inr (has_pinning \<and> has_obfuscation \<and> has_encryption), w))"

subsection \<open>PerformanceAgent\<close>

definition baseline_profile :: string where
  "baseline_profile =
     ''# Baseline Profile for AstralStream'' @ nl @ ''# Automatically generated - do not modify''"

definition lazy_loading :: string where
  "lazy_loading = ''package com.astralplayer.performance''"

definition perf_monitor :: string where
  "perf_monitor = ''package com.astralplayer.performance''"

text \<open>The issues one Kotlin file gives rise to; none when it cannot be read.\<close>

definition performance_issues :: "tree \<Rightarrow> path \<Rightarrow> issue list" where
  "performance_issues t kt_file =
     (case read_text t kt_file of
        Inl e \<Rightarrow> []
      | Inr content \<Rightarrow>
          (if contains ''companion object'' content \<and> contains ''Context'' content
           then [[(''type'', Str ''potential_memory_leak''), (''file'', Str (str_of kt_file)),
                  (''severity'', Str ''high'')]]
           else []) @
          (if contains ''GlobalScope.launch'' content
           then [[(''type'', Str ''global_scope_usage''), (''file'', Str (str_of kt_file)),
                  (''severity'', Str ''medium'')]]
           else []))"

definition PerformanceAgent_analyze :: "path \<Rightarrow> issue list m" where
  "PerformanceAgent_analyze pp w =
     (let t = fs w;
          issues =
            concat (map (performance_issues t) (rglob [] ''.kt'' pp t)) @
            (if \<not> exists t (pp @ Path ''app/src/main/baseline-prof.txt'')
             then [[(''type'', Str ''missing_baseline_profile''), (''severity'', Str ''medium'')]]
             else [])
      in (Inr issues, w\<lparr>issues_found := (issues_found w)(PerformanceAgent := issues)\<rparr>))"

definition fix_memory_leak :: "string \<Rightarrow> unit m" where
  "fix_memory_leak file_path =
     attempt
       (andthen (fs_read (\<lambda>t. read_text t (Path file_path))) (\<lambda>content.
        let content' =
              (if contains ''companion object'' content \<and> contains ''Context'' content
               then replace ''private lateinit var context: Context''
                      ''private var contextRef: WeakReference<Context>? = null'' content
               else content)
        in andthen (fs_write (write_text (Path file_path) content')) (\<lambda>_.
           add_modification PerformanceAgent file_path ''Fixed potential memory leak'')))
       (ok ())"

definition fix_coroutine_scope :: "string \<Rightarrow> unit m" where
  "fix_coroutine_scope file_path =
     attempt
       (andthen (fs_read (\<lambda>t. read_text t (Path file_path))) (\<lambda>content.
        andthen (fs_write (write_text (Path file_path)
                   (replace ''GlobalScope.async'' ''lifecycleScope.async''
                      (replace ''GlobalScope.launch'' ''lifecycleScope.launch'' content)))) (\<lambda>_.
        add_modification PerformanceAgent file_path ''Replaced GlobalScope with lifecycleScope'')))
       (ok ())"

definition create_baseline_profile :: "path \<Rightarrow> unit m" where
  "create_baseline_profile pp =
     generate PerformanceAgent (pp @ Path ''app/src/main/baseline-prof.txt'')
       baseline_profile ''Created baseline profile''"

text \<open>\<open>_optimize_build_config\<close> writes no file: it only records a modification.\<close>

definition optimize_build_config :: "unit m" where
  "optimize_build_config =
     add_modification PerformanceAgent ''build.gradle'' ''Optimized build configuration''"

definition implement_lazy_loading :: "path \<Rightarrow> unit m" where
  "implement_lazy_loading pp =
     generate PerformanceAgent
       (pp @ Path ''app/src/main/java/com/astralplayer/performance/LazyComponentLoader.kt'')
       lazy_loading ''Implemented lazy loading''"

definition add_performance_monitoring :: "path \<Rightarrow> unit m" where
  "add_performance_monitoring pp =
     generate PerformanceAgent
       (pp @ Path ''app/src/main/java/com/astralplayer/performance/AdvancedPerformanceMonitor.kt'')
       perf_monitor ''Added advanced performance monitoring''"

definition PerformanceAgent_fix_issue :: "path \<Rightarrow> issue \<Rightarrow> nat \<Rightarrow> nat m" where
  "PerformanceAgent_fix_issue pp issue fixed_count =
     andthen (lift (item issue ''type'')) (\<lambda>ty.
       if ty = Str ''potential_memory_leak'' then
         andthen (lift (item_str issue ''file'')) (\<lambda>file_path.
         andthen (fix_memory_leak file_path) (\<lambda>_. ok (fixed_count + 1)))
       else if ty = Str ''global_scope_usage'' then
         andthen (lift (item_str issue ''file'')) (\<lambda>file_path.
         andthen (fix_coroutine_scope file_path) (\<lambda>_. ok (fixed_count + 1)))
       else if ty = Str ''missing_baseline_profile'' then
         andthen (create_baseline_profile pp) (\<lambda>_. ok (fixed_count + 1))
       else ok fixed_count)"

definition PerformanceAgent_fix :: "path \<Rightarrow> issue list \<Rightarrow> (nat \<times> nat) m" where
  "PerformanceAgent_fix pp issues =
     andthen (fix_loop (PerformanceAgent_fix_issue pp) issues 0) (\<lambda>fixed_count.
     andthen optimize_build_config (\<lambda>_.
     andthen (implement_lazy_loading pp) (\<lambda>_.
     andthen (add_performance_monitoring pp) (\<lambda>_.
     ok (fixed_count, length issues)))))"

definition PerformanceAgent_validate :: "path \<Rightarrow> bool m" where
  "PerformanceAgent_validate pp w =
     (Inr (list_ex (exists (fs w)) (rglob ''Performance'' ''.kt'' pp (fs w))), w)"

subsection \<open>DocumentationAgent\<close>

definition readme :: string where
  "readme = ''# AstralStream Video Player''"

definition api_docs :: string where
  "api_docs = ''# AstralStream API Documentation''"

definition arch_docs :: string where
  "arch_docs = ''# AstralStream Architecture''"

definition setup_guide :: string where
  "setup_guide = ''# AstralStream Setup Guide''"

definition contributing :: string where
  "contributing = ''# Contributing to AstralStream''"

definition undocumented :: "tree \<Rightarrow> path \<Rightarrow> bool" where
  "undocumented t kt_file =
     (case read_text t kt_file of
        Inl e \<Rightarrow> False
      | Inr content \<Rightarrow>
          count_str ''/**'' content < count_str ''class '' content + count_str ''fun '' content)"

definition DocumentationAgent_analyze :: "path \<Rightarrow> issue list m" where
  "DocumentationAgent_analyze pp w =
     (let t = fs w;
          undocumented_count = length (filter (undocumented t) (rglob [] ''.kt'' pp t));
          issues =
            (if \<not> exists t (pp @ Path ''README.md'')
             then [[(''type'', Str ''missing_readme''), (''severity'', Str ''high'')]]
             else []) @
            (if \<not> exists t (pp @ Path ''docs'')
             then [[(''type'', Str ''missing_api_docs''), (''severity'', Str ''medium'')]]
             else []) @
            (if undocumented_count > 10
             then [[(''type'', Str ''insufficient_inline_docs''), (''count'', Num undocumented_count),
                    (''severity'', Str ''medium'')]]
             else [])
      in (Inr issues, w\<lparr>issues_found := (issues_found w)(DocumentationAgent := issues)\<rparr>))"

text \<open>A generator that writes under the project directory itself, without \<open>mkdir\<close>.\<close>

definition write_and_record :: "agent \<Rightarrow> path \<Rightarrow> string \<Rightarrow> string \<Rightarrow> unit m" where
  "write_and_record self p text descr =
     andthen (fs_write (write_text p text)) (\<lambda>_. add_modification self (str_of p) descr)"

definition generate_readme :: "path \<Rightarrow> unit m" where
  "generate_readme pp =
     write_and_record DocumentationAgent (pp @ Path ''README.md'') readme
       ''Generated comprehensive README''"

definition generate_api_docs :: "path \<Rightarrow> unit m" where
  "generate_api_docs pp =
     (let docs_dir = pp @ Path ''docs'' in
      andthen (fs_write (mkdir False docs_dir)) (\<lambda>_.
      write_and_record DocumentationAgent (docs_dir @ Path ''API.md'') api_docs
        ''Generated API documentation''))"

definition enhance_inline_docs :: "unit m" where
  "enhance_inline_docs =
     add_modification DocumentationAgent ''Multiple files'' ''Enhanced inline documentation''"

definition generate_architecture_docs :: "path \<Rightarrow> unit m" where
  "generate_architecture_docs pp =
     generate DocumentationAgent (pp @ Path ''docs/ARCHITECTURE.md'') arch_docs
       ''Generated architecture documentation''"

definition generate_setup_guide :: "path \<Rightarrow> unit m" where
  "generate_setup_guide pp =
     write_and_record DocumentationAgent (pp @ Path ''docs/SETUP.md'') setup_guide
       ''Generated setup guide''"

definition generate_contributing_guide :: "path \<Rightarrow> unit m" where
  "generate_contributing_guide pp =
     write_and_record DocumentationAgent (pp @ Path ''CONTRIBUTING.md'') contributing
       ''Generated contributing guide''"

definition DocumentationAgent_fix_issue :: "path \<Rightarrow> issue \<Rightarrow> nat \<Rightarrow> nat m" where
  "DocumentationAgent_fix_issue pp issue fixed_count =
     andthen (lift (item issue ''type'')) (\<lambda>ty.
       if ty = Str ''missing_readme'' then
         andthen (generate_readme pp) (\<lambda>_. ok (fixed_count + 1))
       else if ty = Str ''missing_api_docs'' then
         andthen (generate_api_docs pp) (\<lambda>_. ok (fixed_count + 1))
       else if ty = Str ''insufficient_inline_docs'' then
         andthen enhance_inline_docs (\<lambda>_. ok (fixed_count + 1))
       else ok fixed_count)"

definition DocumentationAgent_fix :: "path \<Rightarrow> issue list \<Rightarrow> (nat \<times> nat) m" where
  "DocumentationAgent_fix pp issues =
     andthen (fix_loop (DocumentationAgent_fix_issue pp) issues 0) (\<lambda>fixed_count.
     andthen (generate_architecture_docs pp) (\<lambda>_.
     andthen (generate_setup_guide pp) (\<lambda>_.
     andthen (generate_contributing_guide pp) (\<lambda>_.
     ok (fixed_count, length issues)))))"

definition DocumentationAgent_validate :: "path \<Rightarrow> bool m" where
  "DocumentationAgent_validate pp w =
     (let has_readme = exists (fs w) (pp @ Path ''README.md'');
          has_docs = exists (fs w) (pp @ Path ''docs'')
      in (Inr (has_readme \<and> has_docs), w))"

section \<open>MasterOrchestrator\<close>

text \<open>The methods \<open>analyze\<close>, \<open>fix\<close> and \<open>validate\<close> of an agent, by the class of the object.\<close>

fun agent_analyze :: "agent \<Rightarrow> path \<Rightarrow> issue list m" where
  "agent_analyze TestCoverageAgent = TestCoverageAgent_analyze"
| "agent_analyze ArchitectureAgent = ArchitectureAgent_analyze"
| "agent_analyze SecurityAgent = SecurityAgent_analyze"
| "agent_analyze PerformanceAgent = PerformanceAgent_analyze"
| "agent_analyze DocumentationAgent = DocumentationAgent_analyze"

fun agent_fix :: "agent \<Rightarrow> path \<Rightarrow> issue list \<Rightarrow> (nat \<times> nat) m" where
  "agent_fix TestCoverageAgent = TestCoverageAgent_fix"
| "agent_fix ArchitectureAgent = ArchitectureAgent_fix"
| "agent_fix SecurityAgent = SecurityAgent_fix"
| "agent_fix PerformanceAgent = PerformanceAgent_fix"
| "agent_fix DocumentationAgent = DocumentationAgent_fix"

fun agent_validate :: "agent \<Rightarrow> path \<Rightarrow> bool m" where
  "agent_validate TestCoverageAgent = TestCoverageAgent_validate"
| "agent_validate ArchitectureAgent = ArchitectureAgent_validate"
| "agent_validate SecurityAgent = SecurityAgent_validate"
| "agent_validate PerformanceAgent = PerformanceAgent_validate"
| "agent_validate DocumentationAgent = DocumentationAgent_validate"

text \<open>\<open>self.agents\<close>, as \<open>__init__\<close> builds it.\<close>

definition agents :: "agent list" where
  "agents = [TestCoverageAgent, ArchitectureAgent, SecurityAgent, PerformanceAgent,
             DocumentationAgent]"

text \<open>An awaited method of an agent, between its two trace events.\<close>

definition call :: "phase \<Rightarrow> agent \<Rightarrow> 'a m \<Rightarrow> 'a m" where
  "call ph a c =
     andthen (emit (Enter ph a)) (\<lambda>_.
     andthen c (\<lambda>r.
     andthen (emit (Exit ph a)) (\<lambda>_. ok r)))"

text \<open>
  \<open>_create_backup\<close>: the project is copied beside itself, under a name made from the time
  of day, which is the parameter \<open>timestamp\<close> here.
\<close>

definition create_backup :: "path \<Rightarrow> string \<Rightarrow> path m" where
  "create_backup pp timestamp =
     (let backup_path = parent pp @ [''astralstream_backup_'' @ timestamp] in
      andthen (fs_write (copytree pp backup_path)) (\<lambda>_. ok backup_path))"

text \<open>Phase 1: \<open>all_issues[agent.name] = analysis\<close> for every agent, in order.\<close>

fun analysis_phase :: "path \<Rightarrow> agent list \<Rightarrow> (agent \<rightharpoonup> issue list) \<Rightarrow> (agent \<rightharpoonup> issue list) m" where
  "analysis_phase pp [] all_issues = ok all_issues"
| "analysis_phase pp (a # as) all_issues =
     andthen (call Analyze a (agent_analyze a pp)) (\<lambda>analysis.
     analysis_phase pp as (all_issues(a \<mapsto> analysis)))"

text \<open>Phase 2: \<open>fix\<close> is awaited only for an agent whose issue list is not empty.\<close>

fun fixing_phase :: "path \<Rightarrow> agent list \<Rightarrow> (agent \<rightharpoonup> issue list) \<Rightarrow> unit m" where
  "fixing_phase pp [] all_issues = ok ()"
| "fixing_phase pp (a # as) all_issues =
     andthen (lift (case all_issues a of None \<Rightarrow> Inl KeyError | Some issues \<Rightarrow> Inr issues)) (\<lambda>issues.
     andthen (if issues \<noteq> []
              then andthen (call Fix a (agent_fix a pp issues)) (\<lambda>(fixed, total). emit (Fixed a fixed total))
              else ok ()) (\<lambda>_.
     fixing_phase pp as all_issues))"

text \<open>Phase 3: \<open>all_valid = all_valid and valid\<close> over every agent.\<close>

fun validation_phase :: "path \<Rightarrow> agent list \<Rightarrow> bool \<Rightarrow> bool m" where
  "validation_phase pp [] all_valid = ok all_valid"
| "validation_phase pp (a # as) all_valid =
     andthen (call Validate a (agent_validate a pp)) (\<lambda>valid.
     validation_phase pp as (all_valid \<and> valid))"

text \<open>
  \<open>_generate_final_report\<close> writes \<open>EXPERT_TEAM_REPORT.md\<close> into the project. Of its text
  (dates, durations, per-agent counts) only the result line is kept.
\<close>

definition generate_final_report :: "path \<Rightarrow> bool \<Rightarrow> unit m" where
  "generate_final_report pp success =
     fs_write (write_text (pp @ Path ''EXPERT_TEAM_REPORT.md'')
       (if success then ''SUCCESS - 10/10 ACHIEVED!'' else ''INCOMPLETE - Manual review needed''))"

definition run_full_upgrade :: "path \<Rightarrow> string \<Rightarrow> bool m" where
  "run_full_upgrade pp timestamp =
     andthen (create_backup pp timestamp) (\<lambda>backup_path.
     andthen (analysis_phase pp agents Map.empty) (\<lambda>all_issues.
     andthen (fixing_phase pp agents all_issues) (\<lambda>_.
     andthen (validation_phase pp agents True) (\<lambda>all_valid.
     andthen (generate_final_report pp all_valid) (\<lambda>_.
     ok all_valid)))))"

text \<open>
  The state \<open>MasterOrchestrator.__init__\<close> builds over a given tree: five fresh agent
  objects.
\<close>

definition init :: "tree \<Rightarrow> world" where
  "init t = \<lparr>fs = t, issues_found = (\<lambda>a. []), modifications_made = (\<lambda>a. []), trace = []\<rparr>"

text \<open>\<open>main\<close> returns 0 or 1; an exception of the run passes through it.\<close>

definition main :: "path \<Rightarrow> string \<Rightarrow> tree \<Rightarrow> (exn + int) \<times> world" where
  "main pp timestamp t =
     andthen (run_full_upgrade pp timestamp) (\<lambda>success. ok (if success then 0 else 1)) (init t)"

text \<open>
  \<open>exit(asyncio.run(main()))\<close>: the exit status of the process is what \<open>main\<close> returns, and
  1 when the interpreter ends on an uncaught exception.
\<close>

definition exit_code :: "exn + int \<Rightarrow> int" where
  "exit_code r = (case r of Inl e \<Rightarrow> 1 | Inr n \<Rightarrow> n)"


text \<open>
  Two initial segments of \<open>run_full_upgrade\<close>, named so that statements can refer to the
  state in which phase 2 and phase 3 start.
\<close>

definition backup_and_analysis :: "path \<Rightarrow> string \<Rightarrow> (agent \<rightharpoonup> issue list) m" where
  "backup_and_analysis pp timestamp =
     andthen (create_backup pp timestamp) (\<lambda>backup_path. analysis_phase pp agents Map.empty)"

definition up_to_validation :: "path \<Rightarrow> string \<Rightarrow> unit m" where
  "up_to_validation pp timestamp =
     andthen (backup_and_analysis pp timestamp) (fixing_phase pp agents)"

text \<open>The phase an event belongs to, as a number: 0 analysis, 1 fixing, 2 validation.\<close>

fun rank :: "event \<Rightarrow> nat" where
  "rank (Enter Analyze a) = 0"
| "rank (Exit Analyze a) = 0"
| "rank (Enter Fix a) = 1"
| "rank (Exit Fix a) = 1"
| "rank (Modified a f) = 1"
| "rank (Fixed a n k) = 1"
| "rank (Enter Validate a) = 2"
| "rank (Exit Validate a) = 2"

fun event_agent :: "event \<Rightarrow> agent" where
  "event_agent (Enter ph a) = a"
| "event_agent (Exit ph a) = a"
| "event_agent (Modified a f) = a"
| "event_agent (Fixed a n k) = a"

section \<open>AstralStreamEliteAgent and its command line\<close>

text \<open>
  The second script has one agent object and a command line with the flags \<open>--dry-run\<close> and
  \<open>--skip-backup\<close>. The object's state is the tree, the modification log and the three
  file catalogues.
\<close>

record elite =
  tree_of :: tree
  modifications_log :: "string list"
  kotlin_files :: "path list"
  xml_files :: "path list"
  gradle_files :: "path list"

record args =
  project_path :: string
  dry_run :: bool
  skip_backup :: bool

text \<open>\<open>__init__\<close>; the backup path is fixed here, from the time of day.\<close>

definition elite_init :: "tree \<Rightarrow> elite" where
  "elite_init t =
     \<lparr>tree_of = t, modifications_log = [], kotlin_files = [], xml_files = [], gradle_files = []\<rparr>"

definition elite_backup_path :: "path \<Rightarrow> string \<Rightarrow> path" where
  "elite_backup_path pp timestamp = parent pp @ [''astralstream_backup_'' @ timestamp]"

definition elite_create_backup :: "path \<Rightarrow> string \<Rightarrow> elite \<Rightarrow> (exn + unit) \<times> elite" where
  "elite_create_backup pp timestamp e =
     (case copytree pp (elite_backup_path pp timestamp) (tree_of e) of
        Inl x \<Rightarrow> (Inl x, e)
      | Inr t' \<Rightarrow>
          (Inr (),
           e\<lparr>tree_of := t',
             modifications_log :=
               modifications_log e @
               [''Backup created at: '' @ str_of (elite_backup_path pp timestamp)]\<rparr>))"

definition elite_analyze_project_structure :: "path \<Rightarrow> elite \<Rightarrow> elite" where
  "elite_analyze_project_structure pp e =
     e\<lparr>kotlin_files := kotlin_files e @ rglob [] ''.kt'' pp (tree_of e),
       xml_files := xml_files e @ rglob [] ''.xml'' pp (tree_of e),
       gradle_files := gradle_files e @ rglob [] ''.gradle'' pp (tree_of e)\<rparr>"

text \<open>
  \<open>run_full_upgrade\<close> of this agent: the backup, the cataloguing, and then the generator
  methods of its phases 2 to 10, which enter here as the parameter \<open>later\<close>.
\<close>

definition elite_run_full_upgrade ::
  "(elite \<Rightarrow> (exn + unit) \<times> elite) \<Rightarrow> path \<Rightarrow> string \<Rightarrow> elite \<Rightarrow> (exn + unit) \<times> elite" where
  "elite_run_full_upgrade later pp timestamp e =
     (case elite_create_backup pp timestamp e of
        (Inl x, e') \<Rightarrow> (Inl x, e')
      | (Inr u, e') \<Rightarrow> later (elite_analyze_project_structure pp e'))"

text \<open>
  \<open>main\<close> of this script. The parsed \<open>skip_backup\<close> is never read: the only test is on
  \<open>dry_run\<close>.
\<close>

definition elite_main ::
  "(elite \<Rightarrow> (exn + unit) \<times> elite) \<Rightarrow> args \<Rightarrow> string \<Rightarrow> tree \<Rightarrow> (exn + int) \<times> elite" where
  "elite_main later a timestamp t =
     (if \<not> exists t (Path (project_path a)) then (Inr 1, elite_init t)
      else
        (let agent = elite_init t; pp = Path (project_path a) in
         if dry_run a then (Inr 0, elite_analyze_project_structure pp agent)
         else (case elite_run_full_upgrade later pp timestamp agent of
                 (Inl x, e') \<Rightarrow> (Inl x, e')
               | (Inr u, e') \<Rightarrow> (Inr 0, e'))))"

section \<open>Example inputs\<close>






text \<open>
  Second example: a project in which only the documentation agent finds an issue (the README
  is missing). The constants are the tree, the tree with its backup copy, the issues found,
  the files the fix writes, the modifications it records, and the states after phase 1, after
  phase 2 and at the end of the run.
\<close>

definition ex2_tree :: tree where
  "ex2_tree =
     [([], Dir), ([''proj''], Dir), ([''proj'', ''app''], Dir),
      ([''proj'', ''app'', ''proguard-rules.pro''], File True (replicate 100 CHR ''#'')),
      ([''proj'', ''app'', ''src''], Dir),
      ([''proj'', ''app'', ''src'', ''androidTest''], Dir),
      ([''proj'', ''app'', ''src'', ''main''], Dir),
      ([''proj'', ''app'', ''src'', ''main'', ''baseline-prof.txt''], File True []),
      ([''proj'', ''app'', ''src'', ''test''], Dir),
      ([''proj'', ''app'', ''src'', ''test'', ''ANavigation.kt''], File True []),
      ([''proj'', ''app'', ''src'', ''test'', ''NetworkNavigation.kt''], File True ''CertificatePinner''),
      ([''proj'', ''docs''], Dir)]"

definition ex2_backed_up :: tree where
  "ex2_backed_up =
     ex2_tree @ map (\<lambda>(p, n). (''astralstream_backup_T'' # tl p, n)) (tl ex2_tree)"

definition ex2_issues :: "agent \<Rightarrow> issue list" where
  "ex2_issues a =
     (if a = DocumentationAgent
      then [[(''type'', Str ''missing_readme''), (''severity'', Str ''high'')]] else [])"

definition ex2_written :: tree where
  "ex2_written =
     [([''proj'', ''README.md''], File True readme),
      ([''proj'', ''docs'', ''ARCHITECTURE.md''], File True arch_docs),
      ([''proj'', ''docs'', ''SETUP.md''], File True setup_guide),
      ([''proj'', ''CONTRIBUTING.md''], File True contributing)]"

definition ex2_modifications :: "modification list" where
  "ex2_modifications =
     [\<lparr>mod_file = ''/proj/README.md'', description = ''Generated comprehensive README''\<rparr>,
      \<lparr>mod_file = ''/proj/docs/ARCHITECTURE.md'', description = ''Generated architecture documentation''\<rparr>,
      \<lparr>mod_file = ''/proj/docs/SETUP.md'', description = ''Generated setup guide''\<rparr>,
      \<lparr>mod_file = ''/proj/CONTRIBUTING.md'', description = ''Generated contributing guide''\<rparr>]"

definition ex2_analysed :: world where
  "ex2_analysed =
     \<lparr>fs = ex2_backed_up, issues_found = ex2_issues, modifications_made = (\<lambda>a. []),
      trace = concat (map (\<lambda>a. [Enter Analyze a, Exit Analyze a]) agents)\<rparr>"

definition ex2_fixed :: world where
  "ex2_fixed =
     \<lparr>fs = ex2_backed_up @ ex2_written, issues_found = ex2_issues,
      modifications_made = (\<lambda>a. [])(DocumentationAgent := ex2_modifications),
      trace = concat (map (\<lambda>a. [Enter Analyze a, Exit Analyze a]) agents) @
              Enter Fix DocumentationAgent #
              map (\<lambda>m. Modified DocumentationAgent (mod_file m)) ex2_modifications @
              [Exit Fix DocumentationAgent, Fixed DocumentationAgent 1 1]\<rparr>"

definition ex2_final :: world where
  "ex2_final =
     ex2_fixed
       \<lparr>fs := fs ex2_fixed @
               [([''proj'', ''EXPERT_TEAM_REPORT.md''], File True ''INCOMPLETE - Manual review needed'')],
        trace := trace ex2_fixed @ concat (map (\<lambda>a. [Enter Validate a, Exit Validate a]) agents)\<rparr>"



definition ex4_tree :: tree where
  "ex4_tree = [([], Dir), ([''proj''], Dir), ([''proj'', ''A.kt''], File False ''http://x'')]"

definition ex4_issue :: issue where
  "ex4_issue =
     [(''type'', Str ''insecure_http''), (''file'', Str ''/proj/A.kt''), (''severity'', Str ''high'')]"

section \<open>Notions used in the statements and proofs\<close>



text \<open>A computation keeps a relation when every run of it, failed or not, relates the state
  before to the state after.\<close>

definition keeps :: "(world \<Rightarrow> world \<Rightarrow> bool) \<Rightarrow> 'a m \<Rightarrow> bool" where
  "keeps R c = (\<forall>w. R w (snd (c w)))"

text \<open>
  What the fixing of the agents in \<open>S\<close> may do to the bookkeeping: the issue lists stay, the
  modification lists of the other agents stay, and the trace grows by fixing events of
  agents in \<open>S\<close>.
\<close>

definition frame :: "agent set \<Rightarrow> world \<Rightarrow> world \<Rightarrow> bool" where
  "frame S w w' =
     (issues_found w' = issues_found w \<and>
      (\<forall>b. b \<notin> S \<longrightarrow> modifications_made w' b = modifications_made w b) \<and>
      (\<exists>evs. trace w' = trace w @ evs \<and> list_all (\<lambda>e. rank e = 1 \<and> event_agent e \<in> S) evs))"




section \<open>Facts about computations\<close>


lemma andthen_Inl:
  "andthen c f w = (Inl e, w') \<longleftrightarrow>
     c w = (Inl e, w') \<or> (\<exists>x w1. c w = (Inr x, w1) \<and> f x w1 = (Inl e, w'))"
  by (auto simp: andthen_def split: prod.splits sum.splits)







section \<open>What a fix may touch\<close>

lemma frame_refl: "frame S w w"
  by (simp add: frame_def)

lemma frame_trans: "frame S w w1 \<Longrightarrow> frame S w1 w2 \<Longrightarrow> frame S w w2"
  by (auto simp: frame_def)

lemma frame_mono: "S \<subseteq> T \<Longrightarrow> frame S w w' \<Longrightarrow> frame T w w'"
  by (auto simp: frame_def list_all_iff)

lemma keeps_ok: "keeps (frame S) (ok x)"
  by (simp add: keeps_def ok_def frame_refl)

lemma keeps_lift: "keeps (frame S) (lift r)"
  by (simp add: keeps_def lift_def frame_refl)

lemma keeps_fs_read: "keeps (frame S) (fs_read f)"
  by (simp add: keeps_def fs_read_def frame_refl)

lemma keeps_fs_write: "keeps (frame S) (fs_write f)"
  by (auto simp: keeps_def fs_write_def frame_def split: sum.splits)

lemma keeps_add_modification: "a \<in> S \<Longrightarrow> keeps (frame S) (add_modification a f d)"
  by (auto simp: keeps_def add_modification_def frame_def)

lemma keeps_emit: "rank ev = 1 \<Longrightarrow> event_agent ev \<in> S \<Longrightarrow> keeps (frame S) (emit ev)"
  by (auto simp: keeps_def emit_def frame_def)

lemma keeps_andthen:
  assumes "keeps (frame S) c" and "\<And>x. keeps (frame S) (f x)"
  shows "keeps (frame S) (andthen c f)"
  unfolding keeps_def
proof
  fix w
  show "frame S w (snd (andthen c f w))"
  proof (cases "c w")
    case (Pair r w1)
    with assms(1) have 1: "frame S w w1" by (auto simp: keeps_def dest: spec [of _ w])
    show ?thesis
    proof (cases r)
      case (Inl e)
      with Pair 1 show ?thesis by (simp add: andthen_def)
    next
      case (Inr x)
      from assms(2) [of x] have "frame S w1 (snd (f x w1))" by (simp add: keeps_def)
      with 1 Pair Inr show ?thesis by (auto simp: andthen_def intro: frame_trans)
    qed
  qed
qed

lemma keeps_attempt:
  assumes "keeps (frame S) c" and "keeps (frame S) h"
  shows "keeps (frame S) (attempt c h)"
  unfolding keeps_def
proof
  fix w
  show "frame S w (snd (attempt c h w))"
  proof (cases "c w")
    case (Pair r w1)
    with assms(1) have 1: "frame S w w1" by (auto simp: keeps_def dest: spec [of _ w])
    from assms(2) have "frame S w1 (snd (h w1))" by (simp add: keeps_def)
    with 1 Pair show ?thesis by (cases r) (auto simp: attempt_def intro: frame_trans)
  qed
qed

lemma keeps_for_each: "(\<And>x. keeps (frame S) (body x)) \<Longrightarrow> keeps (frame S) (for_each body xs)"
  by (induction xs) (auto intro!: keeps_ok keeps_andthen)

lemma keeps_fix_loop:
  "(\<And>i n. keeps (frame S) (body i n)) \<Longrightarrow> keeps (frame S) (fix_loop body issues n)"
  by (induction issues arbitrary: n) (auto intro!: keeps_ok keeps_andthen)

lemma keeps_if: "keeps R c \<Longrightarrow> keeps R d \<Longrightarrow> keeps R (if b then c else d)"
  by simp

lemma keeps_generate: "a \<in> S \<Longrightarrow> keeps (frame S) (generate a p text d)"
  unfolding generate_def by (intro keeps_andthen keeps_fs_write keeps_add_modification)

lemma keeps_write_and_record: "a \<in> S \<Longrightarrow> keeps (frame S) (write_and_record a p text d)"
  unfolding write_and_record_def by (intro keeps_andthen keeps_fs_write keeps_add_modification)

lemmas keeps_intros =
  keeps_andthen keeps_attempt keeps_for_each keeps_fix_loop keeps_if keeps_ok keeps_lift
  keeps_fs_read keeps_fs_write keeps_add_modification keeps_generate keeps_write_and_record

lemma keeps_standardize_packages: "keeps (frame {ArchitectureAgent}) (standardize_packages pp)"
proof -
  have "keeps (frame {ArchitectureAgent}) (standardize_file f)" for f
    unfolding standardize_file_def
    by (intro keeps_intros) (auto simp: split_def Let_def intro!: keeps_intros)
  then have "keeps (frame {ArchitectureAgent}) (for_each standardize_file xs)" for xs
    by (rule keeps_for_each)
  then show ?thesis by (simp add: keeps_def standardize_packages_def)
qed

lemma keeps_TestCoverageAgent_fix: "keeps (frame {TestCoverageAgent}) (TestCoverageAgent_fix pp issues)"
  unfolding TestCoverageAgent_fix_def TestCoverageAgent_fix_issue_def generate_integration_tests_def
    generate_ui_tests_def generate_performance_tests_def
  by (intro keeps_intros) simp_all

lemma keeps_ArchitectureAgent_fix: "keeps (frame {ArchitectureAgent}) (ArchitectureAgent_fix pp issues)"
  unfolding ArchitectureAgent_fix_def ArchitectureAgent_fix_issue_def consolidate_databases_def
    enhance_navigation_def create_domain_interfaces_def implement_use_cases_def
  by (intro keeps_intros keeps_standardize_packages) (auto simp: split_def intro!: keeps_intros)

lemma keeps_SecurityAgent_fix: "keeps (frame {SecurityAgent}) (SecurityAgent_fix pp issues)"
  unfolding SecurityAgent_fix_def SecurityAgent_fix_issue_def implement_certificate_pinning_def
    enhance_obfuscation_def fix_insecure_endpoints_def implement_biometric_auth_def
    enhance_data_encryption_def Let_def
  by (intro keeps_intros) simp_all

lemma keeps_PerformanceAgent_fix: "keeps (frame {PerformanceAgent}) (PerformanceAgent_fix pp issues)"
  unfolding PerformanceAgent_fix_def PerformanceAgent_fix_issue_def fix_memory_leak_def
    fix_coroutine_scope_def create_baseline_profile_def optimize_build_config_def
    implement_lazy_loading_def add_performance_monitoring_def Let_def
  by (intro keeps_intros) simp_all

lemma keeps_DocumentationAgent_fix: "keeps (frame {DocumentationAgent}) (DocumentationAgent_fix pp issues)"
  unfolding DocumentationAgent_fix_def DocumentationAgent_fix_issue_def generate_readme_def
    generate_api_docs_def enhance_inline_docs_def generate_architecture_docs_def
    generate_setup_guide_def generate_contributing_guide_def Let_def
  by (intro keeps_intros) simp_all

lemma keeps_agent_fix: "keeps (frame {a}) (agent_fix a pp issues)"
  by (cases a)
     (simp_all add: keeps_TestCoverageAgent_fix keeps_ArchitectureAgent_fix keeps_SecurityAgent_fix
        keeps_PerformanceAgent_fix keeps_DocumentationAgent_fix)

section \<open>The phases of a run\<close>


lemma andthen_ok: "andthen (ok x) f = f x"
  by (rule ext) (simp add: andthen_def ok_def)

lemma andthen_lift_Inr: "andthen (lift (Inr x)) f = f x"
  by (rule ext) (simp add: andthen_def lift_def)

lemma andthen_lift_Inl: "andthen (lift (Inl e)) f = raise e"
  by (rule ext) (simp add: andthen_def lift_def raise_def)

lemma call_eq:
  "call ph a c w =
     (case c (w\<lparr>trace := trace w @ [Enter ph a]\<rparr>) of
        (Inl e, w1) \<Rightarrow> (Inl e, w1)
      | (Inr x, w1) \<Rightarrow> (Inr x, w1\<lparr>trace := trace w1 @ [Exit ph a]\<rparr>))"
  by (simp add: call_def andthen_def emit_def ok_def split: prod.splits sum.splits)

lemma agent_analyze_shape:
  "(\<exists>iss. agent_analyze a pp w = (Inr iss, w\<lparr>issues_found := (issues_found w)(a := iss)\<rparr>))
   \<or> (\<exists>e. agent_analyze a pp w = (Inl e, w))"
proof (cases a)
  case TestCoverageAgent
  then show ?thesis
    by (simp add: TestCoverageAgent_analyze_def Let_def split: sum.splits)
next
  case ArchitectureAgent
  then show ?thesis
    by (simp add: ArchitectureAgent_analyze_def Let_def)
next
  case SecurityAgent
  then show ?thesis
    by (simp add: SecurityAgent_analyze_def Let_def split: sum.splits)
next
  case PerformanceAgent
  then show ?thesis
    by (simp add: PerformanceAgent_analyze_def Let_def)
next
  case DocumentationAgent
  then show ?thesis
    by (simp add: DocumentationAgent_analyze_def Let_def)
qed

lemma agent_analyze_effect:
  assumes "agent_analyze a pp w = (r, w')"
  shows "fs w' = fs w \<and> modifications_made w' = modifications_made w \<and> trace w' = trace w
       \<and> (\<forall>b. b \<noteq> a \<longrightarrow> issues_found w' b = issues_found w b)
       \<and> (\<forall>iss. r = Inr iss \<longrightarrow> issues_found w' a = iss)"
  using assms agent_analyze_shape [of a pp w] by auto

lemma create_backup_effect:
  assumes "create_backup pp ts w = (r, w')"
  shows "issues_found w' = issues_found w \<and> modifications_made w' = modifications_made w
       \<and> trace w' = trace w"
  using assms
  by (auto simp: create_backup_def Let_def andthen_def fs_write_def ok_def split: sum.splits)

lemma analysis_phase_effect:
  assumes "analysis_phase pp as all0 w = (r, w')" and "distinct as"
  shows "fs w' = fs w \<and> modifications_made w' = modifications_made w
       \<and> (\<exists>evs. trace w' = trace w @ evs \<and> list_all (\<lambda>e. rank e = 0) evs)
       \<and> (\<forall>b. b \<notin> set as \<longrightarrow> issues_found w' b = issues_found w b)
       \<and> (\<forall>all. r = Inr all \<longrightarrow>
             (\<forall>a \<in> set as. all a = Some (issues_found w' a)) \<and> (\<forall>b. b \<notin> set as \<longrightarrow> all b = all0 b))"
  using assms
proof (induction as arbitrary: all0 w)
  case Nil
  then show ?case by (auto simp: ok_def)
next
  case (Cons a as)
  obtain r1 w1 where an: "agent_analyze a pp (w\<lparr>trace := trace w @ [Enter Analyze a]\<rparr>) = (r1, w1)"
    by (cases "agent_analyze a pp (w\<lparr>trace := trace w @ [Enter Analyze a]\<rparr>)")
  note eff = agent_analyze_effect [OF an]
  show ?case
  proof (cases r1)
    case (Inl e)
    with Cons.prems an eff show ?thesis
      by (auto simp: andthen_def call_eq)
  next
    case (Inr iss)
    let ?w2 = "w1\<lparr>trace := trace w1 @ [Exit Analyze a]\<rparr>"
    from Cons.prems an Inr have rest: "analysis_phase pp as (all0(a \<mapsto> iss)) ?w2 = (r, w')"
      by (simp add: andthen_def call_eq)
    from Cons.prems have d: "distinct as" and na: "a \<notin> set as" by auto
    from Cons.IH [OF rest d] eff Inr na show ?thesis
      by (auto simp: list_all_iff)
  qed
qed

lemma agent_validate_pure: "\<exists>v. agent_validate a pp w = (Inr v, w)"
  by (cases a)
     (simp_all add: TestCoverageAgent_validate_def ArchitectureAgent_validate_def
        SecurityAgent_validate_def PerformanceAgent_validate_def DocumentationAgent_validate_def
        Let_def)

lemma agent_validate_fs:
  "fs w1 = fs w2 \<Longrightarrow> fst (agent_validate a pp w1) = fst (agent_validate a pp w2)"
  by (cases a)
     (simp_all add: TestCoverageAgent_validate_def ArchitectureAgent_validate_def
        SecurityAgent_validate_def PerformanceAgent_validate_def DocumentationAgent_validate_def
        Let_def)

lemma validation_phase_eq:
  "validation_phase pp as b w =
     (Inr (b \<and> list_all (\<lambda>a. fst (agent_validate a pp w) = Inr True) as),
      w\<lparr>trace := trace w @ concat (map (\<lambda>a. [Enter Validate a, Exit Validate a]) as)\<rparr>)"
proof (induction as arbitrary: b w)
  case Nil
  then show ?case by (simp add: ok_def)
next
  case (Cons a as)
  let ?w1 = "w\<lparr>trace := trace w @ [Enter Validate a]\<rparr>"
  let ?w2 = "w\<lparr>trace := trace w @ [Enter Validate a, Exit Validate a]\<rparr>"
  obtain v where v: "agent_validate a pp ?w1 = (Inr v, ?w1)"
    using agent_validate_pure by blast
  have "fst (agent_validate a pp ?w1) = fst (agent_validate a pp w)"
    by (rule agent_validate_fs) simp
  with v have v': "fst (agent_validate a pp w) = Inr v" by simp
  have same: "fst (agent_validate c pp ?w2) = fst (agent_validate c pp w)" for c
    by (rule agent_validate_fs) simp
  have step: "validation_phase pp (a # as) b w = validation_phase pp as (b \<and> v) ?w2"
    by (simp add: andthen_def call_eq v)
  show ?case
    unfolding step Cons.IH by (auto simp: same v')
qed

lemma main_outcome:
  "main pp ts t =
     (case backup_and_analysis pp ts (init t) of
        (Inl e, w1) \<Rightarrow> (Inl e, w1)
      | (Inr all_issues, w1) \<Rightarrow>
          (case fixing_phase pp agents all_issues w1 of
             (Inl e, w2) \<Rightarrow> (Inl e, w2)
           | (Inr u, w2) \<Rightarrow>
               (case validation_phase pp agents True w2 of
                  (Inl e, w3) \<Rightarrow> (Inl e, w3)
                | (Inr v, w3) \<Rightarrow>
                    (case generate_final_report pp v w3 of
                       (Inl e, w4) \<Rightarrow> (Inl e, w4)
                     | (Inr u, w4) \<Rightarrow> (Inr (if v then 0 else 1), w4)))))"
  by (simp add: main_def run_full_upgrade_def backup_and_analysis_def andthen_def ok_def
      split: prod.splits sum.splits)

lemma analysis_phase_events:
  "analysis_phase pp as all0 w = (Inr all_issues, w') \<Longrightarrow>
     trace w' = trace w @ concat (map (\<lambda>a. [Enter Analyze a, Exit Analyze a]) as)"
proof (induction as arbitrary: all0 w)
  case Nil
  then show ?case by (simp add: ok_def)
next
  case (Cons a as)
  from Cons.prems obtain iss w1 where
    an: "agent_analyze a pp (w\<lparr>trace := trace w @ [Enter Analyze a]\<rparr>) = (Inr iss, w1)" and
    rest: "analysis_phase pp as (all0(a \<mapsto> iss)) (w1\<lparr>trace := trace w1 @ [Exit Analyze a]\<rparr>)
             = (Inr all_issues, w')"
    by (auto simp: andthen_def call_eq split: prod.splits sum.splits)
  from agent_analyze_effect [OF an] Cons.IH [OF rest] show ?case by simp
qed

lemma keeps_mono: "S \<subseteq> T \<Longrightarrow> keeps (frame S) c \<Longrightarrow> keeps (frame T) c"
  by (auto simp: keeps_def intro: frame_mono)

lemma keeps_raise: "keeps (frame S) (raise e)"
  by (simp add: keeps_def raise_def frame_refl)

lemma keeps_call_fix: "keeps (frame {a}) c \<Longrightarrow> keeps (frame {a}) (call Fix a c)"
  unfolding call_def by (intro keeps_andthen keeps_emit keeps_ok) simp_all

lemma keeps_fixing_phase:
  "keeps (frame {a \<in> set as. all_issues a \<noteq> Some []}) (fixing_phase pp as all_issues)"
proof (induction as)
  case Nil
  show ?case by (simp add: keeps_ok)
next
  case (Cons a as)
  let ?S = "{b \<in> set (a # as). all_issues b \<noteq> Some []}"
  have rest: "keeps (frame ?S) (fixing_phase pp as all_issues)"
    by (rule keeps_mono [OF _ Cons.IH]) auto
  show ?case
  proof (cases "all_issues a")
    case None
    then show ?thesis by (simp add: andthen_lift_Inl keeps_raise)
  next
    case (Some issues)
    show ?thesis
    proof (cases "issues = []")
      case True
      with Some rest show ?thesis by (simp add: andthen_lift_Inr andthen_ok)
    next
      case False
      with Some have a: "{a} \<subseteq> ?S" by auto
      have "keeps (frame {a}) (andthen (call Fix a (agent_fix a pp issues))
              (\<lambda>(fixed, tot). emit (Fixed a fixed tot)))"
        by (intro keeps_andthen keeps_call_fix keeps_agent_fix)
           (auto simp: split_def intro!: keeps_emit)
      from keeps_mono [OF a this] rest Some False show ?thesis
        by (simp add: andthen_lift_Inr keeps_andthen)
    qed
  qed
qed

lemma generate_final_report_effect:
  assumes "generate_final_report pp v w = (r, w')"
  shows "issues_found w' = issues_found w \<and> modifications_made w' = modifications_made w
       \<and> trace w' = trace w"
  using assms by (auto simp: generate_final_report_def fs_write_def split: sum.splits)

lemma backup_and_analysis_effect:
  assumes "backup_and_analysis pp ts (init t) = (r, w1)"
  shows "modifications_made w1 = (\<lambda>a. []) \<and> list_all (\<lambda>e. rank e = 0) (trace w1)
       \<and> (\<forall>all_issues. r = Inr all_issues \<longrightarrow>
             (\<forall>a. all_issues a = Some (issues_found w1 a)) \<and>
             trace w1 = concat (map (\<lambda>a. [Enter Analyze a, Exit Analyze a]) agents))"
proof (cases "create_backup pp ts (init t)")
  case (Pair r0 w0)
  note b = create_backup_effect [OF Pair]
  have i: "modifications_made (init t) = (\<lambda>a. [])" "trace (init t) = []"
    by (simp_all add: init_def)
  show ?thesis
  proof (cases r0)
    case (Inl e)
    with Pair assms b i show ?thesis
      by (auto simp: backup_and_analysis_def andthen_def)
  next
    case (Inr bp)
    with Pair assms have an: "analysis_phase pp agents Map.empty w0 = (r, w1)"
      by (simp add: backup_and_analysis_def andthen_def)
    have d: "distinct agents" and u: "set agents = UNIV"
      using agent.exhaust by (auto simp: agents_def)
    from analysis_phase_effect [OF an d] b i u
    have 1: "modifications_made w1 = (\<lambda>a. [])" "list_all (\<lambda>e. rank e = 0) (trace w1)"
      "\<forall>all_issues. r = Inr all_issues \<longrightarrow> (\<forall>a. all_issues a = Some (issues_found w1 a))"
      by auto
    have "trace w1 = concat (map (\<lambda>a. [Enter Analyze a, Exit Analyze a]) agents)"
      if "r = Inr all_issues" for all_issues
      using analysis_phase_events [of pp agents Map.empty w0 all_issues w1] an that b i by simp
    with 1 show ?thesis by auto
  qed
qed

text \<open>The whole run, by the stage at which it ends.\<close>

lemma main_stages:
  obtains
    (analysis_failed) e w1 where
      "backup_and_analysis pp ts (init t) = (Inl e, w1)" "main pp ts t = (Inl e, w1)"
  | (fixing_failed) all_issues w1 e w2 where
      "backup_and_analysis pp ts (init t) = (Inr all_issues, w1)"
      "fixing_phase pp agents all_issues w1 = (Inl e, w2)" "main pp ts t = (Inl e, w2)"
  | (validated) all_issues w1 w2 v r w4 where
      "backup_and_analysis pp ts (init t) = (Inr all_issues, w1)"
      "fixing_phase pp agents all_issues w1 = (Inr (), w2)"
      "v = list_all (\<lambda>a. fst (agent_validate a pp w2) = Inr True) agents"
      "generate_final_report pp v
         (w2\<lparr>trace := trace w2 @ concat (map (\<lambda>a. [Enter Validate a, Exit Validate a]) agents)\<rparr>)
         = (r, w4)"
      "main pp ts t = ((case r of Inl e \<Rightarrow> Inl e | Inr u \<Rightarrow> Inr (if v then 0 else 1)), w4)"
proof (cases "backup_and_analysis pp ts (init t)")
  case (Pair r1 w1)
  show ?thesis
  proof (cases r1)
    case (Inl e)
    with Pair analysis_failed show ?thesis by (simp add: main_outcome)
  next
    case (Inr all_issues)
    note a = Pair [unfolded Inr]
    show ?thesis
    proof (cases "fixing_phase pp agents all_issues w1")
      case (Pair r2 w2)
      show ?thesis
      proof (cases r2)
        case (Inl e)
        with a Pair fixing_failed show ?thesis by (simp add: main_outcome)
      next
        case (Inr u)
        note f = Pair [unfolded Inr]
        let ?v = "list_all (\<lambda>a. fst (agent_validate a pp w2) = Inr True) agents"
        let ?w3 = "w2\<lparr>trace := trace w2 @ concat (map (\<lambda>a. [Enter Validate a, Exit Validate a]) agents)\<rparr>"
        obtain r w4 where g: "generate_final_report pp ?v ?w3 = (r, w4)"
          by (cases "generate_final_report pp ?v ?w3")
        have "main pp ts t = ((case r of Inl e \<Rightarrow> Inl e | Inr u \<Rightarrow> Inr (if ?v then 0 else 1)), w4)"
          using a f g by (simp add: main_outcome validation_phase_eq split: sum.splits)
        with a f g validated show ?thesis by simp
      qed
    qed
  qed
qed

lemma up_to_validation_eq:
  "backup_and_analysis pp ts w = (Inr all_issues, w1) \<Longrightarrow>
     up_to_validation pp ts w = fixing_phase pp agents all_issues w1"
  by (simp add: up_to_validation_def andthen_def)

text \<open>
  Claim C3. When \<open>main\<close> returns a code, phases 1 and 2 have ended in some state, the code
  is 0 exactly when \<open>validate\<close> holds of every agent in that state and 1 otherwise, and
  the process exits with that code.
\<close>

theorem overall_success_is_conjunction:
  assumes "main pp ts t = (Inr code, w)"
  shows "\<exists>w2. up_to_validation pp ts (init t) = (Inr (), w2)
            \<and> code = (if list_all (\<lambda>a. fst (agent_validate a pp w2) = Inr True) agents then 0 else 1)
            \<and> exit_code (fst (main pp ts t)) = code"
proof (cases pp ts t rule: main_stages)
  case (analysis_failed e w1)
  with assms show ?thesis by simp
next
  case (fixing_failed all_issues w1 e w2)
  with assms show ?thesis by simp
next
  case (validated all_issues w1 w2 v r w4)
  from validated(5) assms have "code = (if v then 0 else 1)"
    by (auto split: sum.splits)
  moreover have "up_to_validation pp ts (init t) = (Inr (), w2)"
    using validated(1,2) by (simp add: up_to_validation_eq)
  ultimately show ?thesis using validated(3) assms by (auto simp: exit_code_def)
qed






lemma no_issues_no_fix_run:
  assumes "issues_found (snd (main pp ts t)) a = []"
  shows "modifications_made (snd (main pp ts t)) a = []
       \<and> Enter Fix a \<notin> set (trace (snd (main pp ts t)))
       \<and> (\<forall>f. Modified a f \<notin> set (trace (snd (main pp ts t))))"
proof -
  have goal: "modifications_made w a = [] \<and> Enter Fix a \<notin> set (trace w) \<and> (\<forall>f. Modified a f \<notin> set (trace w))"
    if m: "modifications_made w a = []" and t: "\<forall>e \<in> set (trace w). rank e = 1 \<longrightarrow> event_agent e \<noteq> a" for w
    using m t by (auto dest: bspec [of _ _ "Enter Fix a"] bspec [of _ _ "Modified a f" for f])
  have fixing: "modifications_made w2 a = [] \<and> (\<forall>e \<in> set (trace w2). rank e = 1 \<longrightarrow> event_agent e \<noteq> a)"
    if b: "backup_and_analysis pp ts (init t) = (Inr all_issues, w1)"
      and f: "fixing_phase pp agents all_issues w1 = (r, w2)"
      and i: "issues_found w2 a = []" for all_issues w1 r w2
  proof -
    let ?S = "{b \<in> set agents. all_issues b \<noteq> Some []}"
    from keeps_fixing_phase [of agents all_issues pp] f have fr: "frame ?S w1 w2"
      by (auto simp: keeps_def dest!: spec [of _ w1])
    note eff = backup_and_analysis_effect [OF b]
    from fr i eff have "all_issues a = Some []" by (simp add: frame_def)
    then have "a \<notin> ?S" by simp
    with fr eff show ?thesis by (auto simp: frame_def list_all_iff)
  qed
  show ?thesis
  proof (cases pp ts t rule: main_stages)
    case (analysis_failed e w1)
    from backup_and_analysis_effect [OF analysis_failed(1)] analysis_failed(2)
    show ?thesis by (intro goal [of "snd (main pp ts t)"]) (auto simp: list_all_iff)
  next
    case (fixing_failed all_issues w1 e w2)
    from fixing [OF fixing_failed(1,2)] assms fixing_failed(3)
    show ?thesis by (intro goal [of "snd (main pp ts t)"]) auto
  next
    case (validated all_issues w1 w2 v r w4)
    note g = generate_final_report_effect [OF validated(4)]
    from g assms validated(5) have "issues_found w2 a = []" by simp
    from fixing [OF validated(1,2) this] g validated(5)
    show ?thesis by (intro goal [of "snd (main pp ts t)"]) (auto simp: agents_def)
  qed
qed

text \<open>
  Claim C10. An agent whose issue list is empty when the run ends (its analysis found
  nothing) has no recorded modification, and the trace holds neither a call of its \<open>fix\<close>
  nor a modification by it; phase 2 passes over an agent whose entry in the issue map is the
  empty list without changing the state.
\<close>

theorem no_issues_no_fix:
  assumes "issues_found (snd (main pp ts t)) a = []"
  shows "modifications_made (snd (main pp ts t)) a = []
       \<and> Enter Fix a \<notin> set (trace (snd (main pp ts t)))
       \<and> (\<forall>f. Modified a f \<notin> set (trace (snd (main pp ts t))))
       \<and> (\<forall>as all_issues. all_issues a = Some [] \<longrightarrow>
              fixing_phase pp (a # as) all_issues = fixing_phase pp as all_issues)"
  using no_issues_no_fix_run [OF assms] by (simp add: andthen_lift_Inr andthen_ok)

section \<open>The example runs, evaluated\<close>






lemma agent_analyze_fs:
  "fs w1 = fs w2 \<Longrightarrow> fst (agent_analyze a pp w1) = fst (agent_analyze a pp w2)"
  by (cases a)
     (simp_all add: TestCoverageAgent_analyze_def ArchitectureAgent_analyze_def
        SecurityAgent_analyze_def PerformanceAgent_analyze_def DocumentationAgent_analyze_def
        Let_def split: sum.splits)

lemma agent_analyze_at:
  assumes "fst (agent_analyze a pp (init (fs w))) = Inr iss"
  shows "agent_analyze a pp w = (Inr iss, w\<lparr>issues_found := (issues_found w)(a := iss)\<rparr>)"
proof -
  have "fst (agent_analyze a pp w) = fst (agent_analyze a pp (init (fs w)))"
    by (rule agent_analyze_fs) (simp add: init_def)
  with assms agent_analyze_shape [of a pp w] show ?thesis by auto
qed

lemma analysis_phase_run:
  assumes "\<And>a. a \<in> set as \<Longrightarrow> fst (agent_analyze a pp (init (fs w))) = Inr (iss a)"
  shows "analysis_phase pp as all0 w =
           (Inr (\<lambda>b. if b \<in> set as then Some (iss b) else all0 b),
            w\<lparr>issues_found := (\<lambda>b. if b \<in> set as then iss b else issues_found w b),
              trace := trace w @ concat (map (\<lambda>a. [Enter Analyze a, Exit Analyze a]) as)\<rparr>)"
  using assms
proof (induction as arbitrary: all0 w)
  case Nil
  then show ?case by (simp add: ok_def)
next
  case (Cons a as)
  let ?w1 = "w\<lparr>trace := trace w @ [Enter Analyze a]\<rparr>"
  let ?w2 = "w\<lparr>issues_found := (issues_found w)(a := iss a),
               trace := trace w @ [Enter Analyze a, Exit Analyze a]\<rparr>"
  from Cons.prems have "fst (agent_analyze a pp (init (fs ?w1))) = Inr (iss a)" by simp
  from agent_analyze_at [OF this]
  have an: "agent_analyze a pp ?w1 = (Inr (iss a), ?w1\<lparr>issues_found := (issues_found ?w1)(a := iss a)\<rparr>)" .
  have step: "analysis_phase pp (a # as) all0 w = analysis_phase pp as (all0(a \<mapsto> iss a)) ?w2"
    by (simp add: andthen_def call_eq an)
  have "\<And>b. b \<in> set as \<Longrightarrow> fst (agent_analyze b pp (init (fs ?w2))) = Inr (iss b)"
    using Cons.prems by simp
  from Cons.IH [OF this] show ?case
    unfolding step by (auto simp: fun_eq_iff)
qed

lemma agents_all: "a \<in> set agents"
  by (cases a) (simp_all add: agents_def)

lemma backup_and_analysis_run:
  assumes "copytree pp (parent pp @ [''astralstream_backup_'' @ ts]) t = Inr t1"
    and "\<And>a. fst (agent_analyze a pp (init t1)) = Inr (iss a)"
  shows "backup_and_analysis pp ts (init t) =
           (Inr (\<lambda>a. Some (iss a)),
            \<lparr>fs = t1, issues_found = iss, modifications_made = (\<lambda>a. []),
             trace = concat (map (\<lambda>a. [Enter Analyze a, Exit Analyze a]) agents)\<rparr>)"
proof -
  let ?w0 = "(init t)\<lparr>fs := t1\<rparr>"
  have b: "create_backup pp ts (init t) = (Inr (parent pp @ [''astralstream_backup_'' @ ts]), ?w0)"
    using assms(1) by (simp add: create_backup_def Let_def andthen_def fs_write_def ok_def init_def)
  have "\<And>a. a \<in> set agents \<Longrightarrow> fst (agent_analyze a pp (init (fs ?w0))) = Inr (iss a)"
    using assms(2) by (simp add: init_def)
  from analysis_phase_run [of agents pp ?w0 iss Map.empty, OF this] b show ?thesis
    by (simp add: backup_and_analysis_def andthen_def agents_all init_def)
qed

lemma fixing_phase_skip:
  "all_issues a = Some [] \<Longrightarrow> fixing_phase pp (a # as) all_issues = fixing_phase pp as all_issues"
  by (simp add: andthen_lift_Inr andthen_ok)

lemma fixing_phase_step:
  assumes "all_issues a = Some issues" and "issues \<noteq> []"
    and "agent_fix a pp issues (w\<lparr>trace := trace w @ [Enter Fix a]\<rparr>) = (Inr (fixed, tot), w1)"
  shows "fixing_phase pp (a # as) all_issues w
           = fixing_phase pp as all_issues (w1\<lparr>trace := trace w1 @ [Exit Fix a, Fixed a fixed tot]\<rparr>)"
  using assms by (simp add: andthen_lift_Inr andthen_def call_eq emit_def)









lemma ex2_copytree: "copytree [''proj''] [''astralstream_backup_T''] ex2_tree = Inr ex2_backed_up"
  by code_simp

lemma ex2_analyze: "fst (agent_analyze a [''proj''] (init ex2_backed_up)) = Inr (ex2_issues a)"
  by (cases a; hypsubst; code_simp)

lemma ex2_write_readme:
  "write_text [''proj'', ''README.md''] readme ex2_backed_up = Inr (ex2_backed_up @ take 1 ex2_written)"
  by code_simp

lemma ex2_mkdir_docs:
  "mkdir True [''proj'', ''docs''] (ex2_backed_up @ take 1 ex2_written)
     = Inr (ex2_backed_up @ take 1 ex2_written)"
  by code_simp

lemma ex2_write_architecture:
  "write_text [''proj'', ''docs'', ''ARCHITECTURE.md''] arch_docs (ex2_backed_up @ take 1 ex2_written)
     = Inr (ex2_backed_up @ take 2 ex2_written)"
  by code_simp

lemma ex2_write_setup:
  "write_text [''proj'', ''docs'', ''SETUP.md''] setup_guide (ex2_backed_up @ take 2 ex2_written)
     = Inr (ex2_backed_up @ take 3 ex2_written)"
  by code_simp

lemma ex2_write_contributing:
  "write_text [''proj'', ''CONTRIBUTING.md''] contributing (ex2_backed_up @ take 3 ex2_written)
     = Inr (ex2_backed_up @ ex2_written)"
  by code_simp

lemma ex2_write_report:
  "write_text [''proj'', ''EXPERT_TEAM_REPORT.md''] ''INCOMPLETE - Manual review needed''
     (ex2_backed_up @ ex2_written)
     = Inr ((ex2_backed_up @ ex2_written) @
            [([''proj'', ''EXPERT_TEAM_REPORT.md''], File True ''INCOMPLETE - Manual review needed'')])"
  by code_simp

lemma ex2_validate:
  "fst (agent_validate a [''proj''] (init (ex2_backed_up @ ex2_written))) = Inr (a = DocumentationAgent)"
  by (cases a; hypsubst; code_simp)


lemma ex2_analysis:
  "backup_and_analysis [''proj''] ''T'' (init ex2_tree) = (Inr (\<lambda>a. Some (ex2_issues a)), ex2_analysed)"
  unfolding ex2_analysed_def
  by (rule backup_and_analysis_run) (simp_all add: parent_def ex2_copytree ex2_analyze)

lemma ex2_fix:
  "agent_fix DocumentationAgent [''proj''] (ex2_issues DocumentationAgent)
     (ex2_analysed\<lparr>trace := trace ex2_analysed @ [Enter Fix DocumentationAgent]\<rparr>)
   = (Inr (1, 1),
      ex2_fixed\<lparr>trace := concat (map (\<lambda>a. [Enter Analyze a, Exit Analyze a]) agents) @
                 Enter Fix DocumentationAgent #
                 map (\<lambda>m. Modified DocumentationAgent (mod_file m)) ex2_modifications\<rparr>)"
  by (simp add: ex2_issues_def ex2_analysed_def ex2_fixed_def ex2_modifications_def ex2_written_def
      DocumentationAgent_fix_def DocumentationAgent_fix_issue_def generate_readme_def
      write_and_record_def generate_architecture_docs_def generate_def generate_setup_guide_def
      generate_contributing_guide_def andthen_def lift_def item_def fs_write_def
      add_modification_def Path_def parent_def str_of_def ok_def
      ex2_write_readme [unfolded ex2_written_def, simplified]
      ex2_mkdir_docs [unfolded ex2_written_def, simplified]
      ex2_write_architecture [unfolded ex2_written_def, simplified]
      ex2_write_setup [unfolded ex2_written_def, simplified]
      ex2_write_contributing [unfolded ex2_written_def, simplified])

lemma ex2_fixing:
  "fixing_phase [''proj''] agents (\<lambda>a. Some (ex2_issues a)) ex2_analysed = (Inr (), ex2_fixed)"
proof -
  have skip: "fixing_phase [''proj''] (a # as) (\<lambda>a. Some (ex2_issues a))
                = fixing_phase [''proj''] as (\<lambda>a. Some (ex2_issues a))"
    if "a \<noteq> DocumentationAgent" for a as
    using that by (intro fixing_phase_skip) (simp add: ex2_issues_def)
  have "fixing_phase [''proj''] agents (\<lambda>a. Some (ex2_issues a)) ex2_analysed
          = fixing_phase [''proj''] [DocumentationAgent] (\<lambda>a. Some (ex2_issues a)) ex2_analysed"
    unfolding agents_def by (simp only: skip agent.distinct not_False_eq_True)
  also have "\<dots> = (Inr (), ex2_fixed)"
    by (subst fixing_phase_step [OF _ _ ex2_fix])
       (simp_all add: ex2_issues_def ok_def ex2_fixed_def)
  finally show ?thesis .
qed


lemma ex2_validated:
  "fst (agent_validate a [''proj''] (ex2_fixed\<lparr>trace := tr\<rparr>)) = Inr (a = DocumentationAgent)"
proof -
  have "fst (agent_validate a [''proj''] (ex2_fixed\<lparr>trace := tr\<rparr>))
          = fst (agent_validate a [''proj''] (init (ex2_backed_up @ ex2_written)))"
    by (rule agent_validate_fs) (simp add: ex2_fixed_def init_def)
  then show ?thesis by (simp only: ex2_validate)
qed

lemma ex2_main: "main [''proj''] ''T'' ex2_tree = (Inr 1, ex2_final)"
proof -
  have v: "list_all (\<lambda>a. fst (agent_validate a [''proj''] ex2_fixed) = Inr True) agents = False"
    using ex2_validated [of _ "trace ex2_fixed"] by (simp add: agents_def)
  have r: "generate_final_report [''proj''] False
             (ex2_fixed\<lparr>trace := trace ex2_fixed @
                concat (map (\<lambda>a. [Enter Validate a, Exit Validate a]) agents)\<rparr>)
           = (Inr (), ex2_final)"
    by (simp add: generate_final_report_def fs_write_def Path_def ex2_final_def ex2_fixed_def
        ex2_write_report)
  show ?thesis
    by (simp add: main_outcome ex2_analysis ex2_fixing validation_phase_eq v r)
qed


theorem overall_success_is_conjunction_witness:
  "main [''proj''] ''T'' ex2_tree = (Inr 1, ex2_final)
   \<and> (\<exists>w2. up_to_validation [''proj''] ''T'' (init ex2_tree) = (Inr (), w2)
          \<and> (1::int) = (if list_all (\<lambda>a. fst (agent_validate a [''proj''] w2) = Inr True) agents
                        then 0 else 1)
          \<and> exit_code (fst (main [''proj''] ''T'' ex2_tree)) = 1)"
  using overall_success_is_conjunction [OF ex2_main] ex2_main by blast


theorem no_issues_no_fix_witness:
  "issues_found (snd (main [''proj''] ''T'' ex2_tree)) TestCoverageAgent = []
   \<and> modifications_made (snd (main [''proj''] ''T'' ex2_tree)) TestCoverageAgent = []
   \<and> Enter Fix TestCoverageAgent \<notin> set (trace (snd (main [''proj''] ''T'' ex2_tree)))
   \<and> (\<forall>f. Modified TestCoverageAgent f \<notin> set (trace (snd (main [''proj''] ''T'' ex2_tree))))
   \<and> (\<lambda>a. Some (ex2_issues a)) TestCoverageAgent = Some []
   \<and> fixing_phase [''proj''] agents (\<lambda>a. Some (ex2_issues a))
       = fixing_phase [''proj''] (tl agents) (\<lambda>a. Some (ex2_issues a))"
proof -
  have e: "(\<lambda>a. Some (ex2_issues a)) TestCoverageAgent = Some []"
    by (simp add: ex2_issues_def)
  have a: "agents = TestCoverageAgent # tl agents"
    by (simp add: agents_def)
  have i: "issues_found (snd (main [''proj''] ''T'' ex2_tree)) TestCoverageAgent = []"
    by (simp add: ex2_main ex2_final_def ex2_fixed_def ex2_issues_def)
  note n = no_issues_no_fix [of "[''proj'']" "''T''" ex2_tree TestCoverageAgent, OF i]
  from n have m: "modifications_made (snd (main [''proj''] ''T'' ex2_tree)) TestCoverageAgent = []"
    and f: "Enter Fix TestCoverageAgent \<notin> set (trace (snd (main [''proj''] ''T'' ex2_tree)))"
    and g: "\<forall>f. Modified TestCoverageAgent f \<notin> set (trace (snd (main [''proj''] ''T'' ex2_tree)))"
    and s: "\<forall>as all_issues. all_issues TestCoverageAgent = Some [] \<longrightarrow>
              fixing_phase [''proj''] (TestCoverageAgent # as) all_issues
                = fixing_phase [''proj''] as all_issues"
    by blast+
  from s [rule_format, of "\<lambda>a. Some (ex2_issues a)" "tl agents", OF e]
  have "fixing_phase [''proj''] agents (\<lambda>a. Some (ex2_issues a))
          = fixing_phase [''proj''] (tl agents) (\<lambda>a. Some (ex2_issues a))"
    using a by simp
  with i m f g e show ?thesis by blast
qed

section \<open>Fixing one issue, once and again\<close>
































lemma fix_insecure_endpoints_cases:
  "fix_insecure_endpoints f w =
     (case read_text (fs w) (Path f) of
        Inl e \<Rightarrow> (Inr (), w)
      | Inr content \<Rightarrow>
          (case write_text (Path f) (replace ''http://'' ''https://'' content) (fs w) of
             Inl e \<Rightarrow> (Inr (), w)
           | Inr t' \<Rightarrow>
               (Inr (),
                w\<lparr>fs := t',
                  modifications_made :=
                    (modifications_made w)(SecurityAgent := modifications_made w SecurityAgent @
                       [\<lparr>mod_file = f, description = ''Fixed insecure HTTP endpoints''\<rparr>]),
                  trace := trace w @ [Modified SecurityAgent f]\<rparr>)))"
  by (simp add: fix_insecure_endpoints_def attempt_def andthen_def fs_read_def fs_write_def
      add_modification_def ok_def split: sum.splits)

lemma SecurityAgent_fix_issue_http:
  assumes "map_of i ''type'' = Some (Str ''insecure_http'')" and "map_of i ''file'' = Some (Str f)"
  shows "SecurityAgent_fix_issue pp i n w = (Inr (n + 1), snd (fix_insecure_endpoints f w))"
  using assms
  by (simp add: SecurityAgent_fix_issue_def andthen_def lift_def item_def item_str_def ok_def
      fix_insecure_endpoints_cases split: sum.splits)

text \<open>
  Claim C8, as amended. Fixing an insecure-endpoint issue of the security agent never raises
  and always counts the issue as fixed; and when the file cannot be read, or the corrected
  text cannot be written, the state is left as it was: no modification is recorded.
\<close>

theorem swallowed_failure_is_counted:
  assumes "map_of i ''type'' = Some (Str ''insecure_http'')" and "map_of i ''file'' = Some (Str f)"
  shows "fst (SecurityAgent_fix_issue pp i n w) = Inr (n + 1)
       \<and> ((\<forall>content t'. read_text (fs w) (Path f) = Inr content \<longrightarrow>
              write_text (Path f) (replace ''http://'' ''https://'' content) (fs w) \<noteq> Inr t')
            \<longrightarrow> snd (SecurityAgent_fix_issue pp i n w) = w)"
  unfolding SecurityAgent_fix_issue_http [OF assms]
  by (auto simp: fix_insecure_endpoints_cases split: sum.splits)

lemma ex4_read: "read_text ex4_tree (Path ''/proj/A.kt'') = Inr ''http://x''"
  by code_simp

lemma ex4_write:
  "write_text (Path ''/proj/A.kt'') (replace ''http://'' ''https://'' ''http://x'') ex4_tree
     = Inl PermissionError"
  by code_simp

theorem swallowed_failure_is_counted_witness:
  "map_of ex4_issue ''type'' = Some (Str ''insecure_http'')
   \<and> map_of ex4_issue ''file'' = Some (Str ''/proj/A.kt'')
   \<and> read_text (fs (init ex4_tree)) (Path ''/proj/A.kt'') = Inr ''http://x''
   \<and> write_text (Path ''/proj/A.kt'') (replace ''http://'' ''https://'' ''http://x'')
        (fs (init ex4_tree)) = Inl PermissionError
   \<and> fst (SecurityAgent_fix_issue [''proj''] ex4_issue 0 (init ex4_tree)) = Inr 1
   \<and> snd (SecurityAgent_fix_issue [''proj''] ex4_issue 0 (init ex4_tree)) = init ex4_tree"
proof -
  have t: "map_of ex4_issue ''type'' = Some (Str ''insecure_http'')"
    and f: "map_of ex4_issue ''file'' = Some (Str ''/proj/A.kt'')"
    by (simp_all add: ex4_issue_def)
  have r: "read_text (fs (init ex4_tree)) (Path ''/proj/A.kt'') = Inr ''http://x''"
    and w: "write_text (Path ''/proj/A.kt'') (replace ''http://'' ''https://'' ''http://x'')
              (fs (init ex4_tree)) = Inl PermissionError"
    by (simp_all only: init_def world.simps ex4_read ex4_write)
  from swallowed_failure_is_counted [OF t f, of "[''proj'']" 0 "init ex4_tree"] r w t f
  show ?thesis by auto
qed

text \<open>
  Claim C8 fails on the count: over a project whose only file \<open>A.kt\<close> is read-only and holds an
  \<open>http\<close> address, the write of the security fix fails and is swallowed, the file is left as
  it was, and \<open>fix\<close> still reports one fixed issue out of one.
\<close>

lemma ex4_fix: "fst (SecurityAgent_fix [''proj''] [ex4_issue] (init ex4_tree)) = Inr (1, 1)"
  by code_simp

theorem skipped_fix_counterexample:
  "fst (SecurityAgent_fix [''proj''] [ex4_issue] (init ex4_tree)) = Inr (1, 1)
   \<and> write_text (Path ''/proj/A.kt'') (replace ''http://'' ''https://'' ''http://x'') ex4_tree
       = Inl PermissionError
   \<and> snd (SecurityAgent_fix_issue [''proj''] ex4_issue 0 (init ex4_tree)) = init ex4_tree"
proof -
  have "fs (init ex4_tree) = ex4_tree" by (simp add: init_def)
  then have "fix_insecure_endpoints ''/proj/A.kt'' (init ex4_tree) = (Inr (), init ex4_tree)"
    by (simp only: fix_insecure_endpoints_cases ex4_read ex4_write sum.case)
  moreover have "SecurityAgent_fix_issue [''proj''] ex4_issue 0 (init ex4_tree)
      = (Inr (0 + 1), snd (fix_insecure_endpoints ''/proj/A.kt'' (init ex4_tree)))"
    by (rule SecurityAgent_fix_issue_http) (simp_all add: ex4_issue_def)
  ultimately show ?thesis using ex4_fix ex4_write by simp
qed

section \<open>The command line of the elite agent\<close>

text \<open>
  Claim C6. With \<open>--dry-run\<close> the script only catalogues the project: the tree is left as
  it was, the modification log stays empty, the exit status is 0 (1 when the project path
  does not exist), and the generator phases play no part in the result.
\<close>

theorem dry_run_purity:
  assumes "dry_run a"
  shows "tree_of (snd (elite_main later a ts t)) = t
       \<and> modifications_log (snd (elite_main later a ts t)) = []
       \<and> fst (elite_main later a ts t) = Inr (if exists t (Path (project_path a)) then 0 else 1)
       \<and> elite_main later a ts t = elite_main later' a ts t"
  using assms
  by (simp add: elite_main_def elite_init_def elite_analyze_project_structure_def Let_def)

theorem dry_run_purity_witness:
  "dry_run \<lparr>project_path = ''/proj'', dry_run = True, skip_backup = False\<rparr>
   \<and> elite_main (\<lambda>e. (Inl ValueError, e\<lparr>tree_of := []\<rparr>))
        \<lparr>project_path = ''/proj'', dry_run = True, skip_backup = False\<rparr> ''T''
        [([], Dir), ([''proj''], Dir), ([''proj'', ''A.kt''], File True ''class A'')]
     = (Inr 0,
        \<lparr>tree_of = [([], Dir), ([''proj''], Dir), ([''proj'', ''A.kt''], File True ''class A'')],
         modifications_log = [], kotlin_files = [[''proj'', ''A.kt'']], xml_files = [],
         gradle_files = []\<rparr>)"
  using dry_run_purity [of "\<lparr>project_path = ''/proj'', dry_run = True, skip_backup = False\<rparr>"
      "\<lambda>e. (Inl ValueError, e\<lparr>tree_of := []\<rparr>)" "''T''"
      "[([], Dir), ([''proj''], Dir), ([''proj'', ''A.kt''], File True ''class A'')]"]
  by (simp add: elite_main_def elite_init_def elite_analyze_project_structure_def Let_def
      exists_def Path_def rglob_def is_dir_def glob_match_def endswith_def name_of_def)

text \<open>
  Claim C7, at the input \<open>--project-path /proj --skip-backup\<close> over a tree holding the
  empty project \<open>/proj\<close>: the copy \<open>/astralstream_backup_T\<close> is made all the same, and the
  generator phases start from a tree that holds it.
\<close>

theorem skip_backup_still_copies:
  "elite_main later \<lparr>project_path = ''/proj'', dry_run = False, skip_backup = True\<rparr> ''T''
     [([], Dir), ([''proj''], Dir)]
   = (case later \<lparr>tree_of = [([], Dir), ([''proj''], Dir), ([''astralstream_backup_T''], Dir)],
                   modifications_log = [''Backup created at: /astralstream_backup_T''],
                   kotlin_files = [], xml_files = [], gradle_files = []\<rparr> of
        (Inl x, e') \<Rightarrow> (Inl x, e')
      | (Inr u, e') \<Rightarrow> (Inr 0, e'))"
  by (simp add: elite_main_def elite_init_def elite_run_full_upgrade_def elite_create_backup_def
      elite_backup_path_def elite_analyze_project_structure_def copytree_def Let_def exists_def
      Path_def rglob_def is_dir_def blocked_def is_file_def parent_def str_of_def)

lemma skip_backup_ignored:
  "elite_main later (a\<lparr>skip_backup := b\<rparr>) ts t = elite_main later a ts t"
  by (simp add: elite_main_def)

section \<open>Validation\<close>

text \<open>
  Claim C9. What \<open>validate\<close> returns is determined by the tree (and the project path): two
  states with the same tree, whatever their issue lists, modification lists and traces,
  give the same answer.
\<close>

theorem validate_depends_on_tree_only:
  assumes "fs w1 = fs w2"
  shows "fst (agent_validate a pp w1) = fst (agent_validate a pp w2)"
  using assms
  by (cases a)
     (simp_all add: TestCoverageAgent_validate_def ArchitectureAgent_validate_def
        SecurityAgent_validate_def PerformanceAgent_validate_def DocumentationAgent_validate_def
        Let_def)

theorem validate_depends_on_tree_only_witness:
  "fs (init [([], Dir), ([''proj''], Dir), ([''proj'', ''README.md''], File True ''x''),
             ([''proj'', ''docs''], Dir)])
     = fs ((init [([], Dir), ([''proj''], Dir), ([''proj'', ''README.md''], File True ''x''),
                  ([''proj'', ''docs''], Dir)])
             \<lparr>issues_found := (\<lambda>a. [[(''type'', Str ''missing_readme'')]]),
              modifications_made := (\<lambda>a. [\<lparr>mod_file = ''f'', description = ''d''\<rparr>])\<rparr>)
   \<and> fst (agent_validate DocumentationAgent [''proj'']
        ((init [([], Dir), ([''proj''], Dir), ([''proj'', ''README.md''], File True ''x''),
                ([''proj'', ''docs''], Dir)])
           \<lparr>issues_found := (\<lambda>a. [[(''type'', Str ''missing_readme'')]]),
            modifications_made := (\<lambda>a. [\<lparr>mod_file = ''f'', description = ''d''\<rparr>])\<rparr>))
     = Inr True"
  using validate_depends_on_tree_only
    [of "init [([], Dir), ([''proj''], Dir), ([''proj'', ''README.md''], File True ''x''),
               ([''proj'', ''docs''], Dir)]"
        "(init [([], Dir), ([''proj''], Dir), ([''proj'', ''README.md''], File True ''x''),
                ([''proj'', ''docs''], Dir)])
           \<lparr>issues_found := (\<lambda>a. [[(''type'', Str ''missing_readme'')]]),
            modifications_made := (\<lambda>a. [\<lparr>mod_file = ''f'', description = ''d''\<rparr>])\<rparr>"
        DocumentationAgent "[''proj'']"]
  by (simp add: init_def DocumentationAgent_validate_def Let_def exists_def Path_def)

end
